theory Spec2Isabelle
  imports Complex_Main
begin

section \<open>Shared vocabulary\<close>

text \<open>
  The library works on numeric arrays.  An object is its feature vector, a query set is
  the list of its objects, and a batch \<open>X\<close> of shape
  \<open>(n_instances, n_objects, n_features)\<close> is a list of query sets.  Scores are real
  numbers: rounding of the floating-point kernels is outside this development.
\<close>

type_synonym features = "real list"
type_synonym query = "features list"
type_synonym batch = "query list"
type_synonym score_matrix = "real list list"
type_synonym label_matrix = "bool list list"

text \<open>Python exceptions that the modelled code paths can raise.\<close>

datatype error =
    ValueError
  | TypeError
  | IndexError
  | AttributeError
  | UnexpectedKeyword string "string list"
  | Raised string

section \<open>Threshold tuning (\<open>FETAChoiceFunction._tune_threshold\<close>)\<close>

text \<open>
  \<open>np.unique(scores)\<close> flattens the score array and returns its distinct values in
  ascending order.
\<close>

definition np_unique :: "score_matrix \<Rightarrow> real list" where
  "np_unique scores = sort (remdups (concat scores))"

text \<open>
  The extended slice \<open>xs[::k]\<close>: for a positive step the elements at positions
  \<open>0, k, 2k, \<dots>\<close>; for a negative step the same walk from the last element
  backwards; step zero raises \<open>ValueError\<close>.
\<close>

fun stride :: "nat \<Rightarrow> 'a list \<Rightarrow> 'a list" where
  "stride k [] = []"
| "stride k (x # xs) = x # stride k (drop (k - 1) xs)"

definition slice_step :: "int \<Rightarrow> 'a list \<Rightarrow> error + 'a list" where
  "slice_step k xs =
     (if k = 0 then Inl ValueError
      else if 0 < k then Inr (stride (nat k) xs)
      else Inr (stride (nat (- k)) (rev xs)))"

text \<open>The element-wise comparison \<open>scores > p\<close>.\<close>

definition greater_than :: "score_matrix \<Rightarrow> real \<Rightarrow> label_matrix" where
  "greater_than scores p = map (map (\<lambda>s. p < s)) scores"

text \<open>
  \<open>f1_score(Y_val, pred, average='samples')\<close> is a function of scikit-learn.  It is
  the parameter \<open>f1_score\<close> of the tuner: applied to the labels and a prediction it
  returns the number it computed or raises (the library rejects, for instance, label
  arrays that are not multilabel indicator matrices).  The tuner only compares the
  returned numbers; how the library computes and rounds them is not modelled.

  The scan of \<open>_tune_threshold\<close>.  The state of the loop is the pair
  \<open>(threshold, best)\<close>; it is replaced only when the candidate's F1 is strictly
  larger than \<open>best\<close>.  \<open>f1_of p\<close> is the call of \<open>f1_score\<close> for the candidate
  \<open>p\<close>; an exception of that call leaves the loop.
\<close>

fun tune_loop ::
  "(real \<Rightarrow> error + real) \<Rightarrow> real list \<Rightarrow> real \<times> real \<Rightarrow> error + real \<times> real" where
  "tune_loop f1_of [] (threshold, best) = Inr (threshold, best)"
| "tune_loop f1_of (p # probs) (threshold, best) =
     (case f1_of p of
        Inl e \<Rightarrow> Inl e
      | Inr f1 \<Rightarrow>
          if best < f1 then tune_loop f1_of probs (p, f1)
          else tune_loop f1_of probs (threshold, best))"

text \<open>
  \<open>_tune_threshold(X_val, Y_val, thin_thresholds)\<close>.  The call
  \<open>self.predict_scores(X_val)\<close> is the parameter \<open>predict_scores\<close>, which may
  raise.  The statements run in the order of the source: scores, candidates, F1 of the
  baseline \<open>0.0\<close>, scan.  The returned value is the selected threshold.
\<close>

definition tune_threshold ::
  "(label_matrix \<Rightarrow> label_matrix \<Rightarrow> error + real) \<Rightarrow> ('x \<Rightarrow> error + score_matrix)
   \<Rightarrow> 'x \<Rightarrow> label_matrix \<Rightarrow> int \<Rightarrow> error + real" where
  "tune_threshold f1_score predict_scores X_val Y_val thin_thresholds =
     (case predict_scores X_val of
        Inl e \<Rightarrow> Inl e
      | Inr scores \<Rightarrow>
          (case slice_step thin_thresholds (np_unique scores) of
             Inl e \<Rightarrow> Inl e
           | Inr probs \<Rightarrow>
               (case f1_score Y_val (greater_than scores 0) of
                  Inl e \<Rightarrow> Inl e
                | Inr best \<Rightarrow>
                    (case tune_loop (\<lambda>p. f1_score Y_val (greater_than scores p)) probs (0, best) of
                       Inl e \<Rightarrow> Inl e
                     | Inr (threshold, best') \<Rightarrow> Inr threshold))))"

text \<open>
  A metric for running the tuner on small inputs: the sample-averaged F1 of two boolean
  matrices in exact arithmetic (per row twice the number of common positives over the
  number of true plus predicted positives, \<open>0\<close> where a row has no common positive),
  with \<open>ValueError\<close> for an empty label matrix, for shapes that differ and for rows of
  fewer than two labels.  It is used in closed examples only; the properties of the
  tuner are proved for every metric.
\<close>

definition f1_row :: "bool list \<Rightarrow> bool list \<Rightarrow> real" where
  "f1_row y_true y_pred =
     (let tp = length (filter (\<lambda>(t, p). t \<and> p) (zip y_true y_pred));
          n_true = length (filter id y_true);
          n_pred = length (filter id y_pred)
      in if tp = 0 then 0 else 2 * real tp / real (n_true + n_pred))"

definition example_f1_score :: "label_matrix \<Rightarrow> label_matrix \<Rightarrow> error + real" where
  "example_f1_score Y pred =
     (if Y = [] \<or> map length Y \<noteq> map length pred \<or> list_ex (\<lambda>row. length row < 2) Y
      then Inl ValueError
      else Inr (sum_list (map2 f1_row Y pred) / real (length Y)))"

text \<open>
  The values of the example metric for the scores \<open>[[1/5, 4/5], [3/5, 2/5]]\<close> and the
  labels \<open>[[False, True], [True, False]]\<close>, as a function of the candidate: on the
  candidates \<open>0, 1/5, 2/5, 3/5, 4/5\<close> they are \<open>2/3, 5/6, 1, 1/2, 0\<close>.
\<close>

definition example_f1_values :: "real \<Rightarrow> real" where
  "example_f1_values c =
     (if c < 1 / 5 then 2 / 3 else if c < 2 / 5 then 5 / 6 else if c < 3 / 5 then 1
      else if c < 4 / 5 then 1 / 2 else 0)"

section \<open>Layers and networks\<close>

text \<open>
  A hidden layer (\<open>Dense\<close> or \<open>NormalizedDense\<close> with its trained weights) is the
  function it computes on a feature vector.  A single-unit \<open>Dense(1)\<close> layer is kept
  with its kernel and bias, since the claims depend on its activation.
\<close>

type_synonym layer = "features \<Rightarrow> features"

record unit_weights =
  kernel :: "real list"
  bias :: real

definition sigmoid :: "real \<Rightarrow> real" where
  "sigmoid x = 1 / (1 + exp (- x))"

definition dot :: "real list \<Rightarrow> real list \<Rightarrow> real" where
  "dot w x = sum_list (map2 (*) w x)"

definition affine :: "unit_weights \<Rightarrow> features \<Rightarrow> real" where
  "affine u x = dot (kernel u) x + bias u"

text \<open>A \<open>Dense(n_units, activation)\<close> layer, one \<open>unit_weights\<close> per unit.\<close>

definition Dense :: "(real \<Rightarrow> real) \<Rightarrow> unit_weights list \<Rightarrow> layer" where
  "Dense activation units x = map (\<lambda>u. activation (affine u x)) units"

definition relu :: "real \<Rightarrow> real" where
  "relu x = max 0 x"

text \<open>\<open>for hidden in hidden_layers: x = hidden(x)\<close>\<close>

definition apply_layers :: "layer list \<Rightarrow> features \<Rightarrow> features" where
  "apply_layers hs x = foldl (\<lambda>v h. h v) x hs"

text \<open>
  The attributes \<open>hidden_layers\<close> and \<open>output_node\<close> that \<open>RankNetCore\<close>,
  \<open>CmpNetCore\<close> and the FETA network share.
\<close>

record net =
  hidden_layers :: "layer list"
  output_node :: unit_weights

section \<open>RankNet (\<open>RankNetCore\<close>)\<close>

text \<open>
  \<open>RankNetCore.construct_model\<close>: the pairwise training graph.  The first hidden
  layer encodes both objects, the encoding of the second one is negated, both pass
  through the remaining hidden layers, the two results are added and fed to the sigmoid
  output unit.  \<open>hidden_layers[0]\<close> raises \<open>IndexError\<close> when \<open>n_hidden = 0\<close>.
\<close>

definition ranknet_construct_model :: "net \<Rightarrow> features \<Rightarrow> features \<Rightarrow> error + real" where
  "ranknet_construct_model nw x1 x2 =
     (case hidden_layers nw of
        [] \<Rightarrow> Inl IndexError
      | h0 # hs \<Rightarrow>
          (let enc_x1 = h0 x1;
               enc_x2 = h0 x2;
               neg_x2 = map uminus enc_x2;
               enc_x1' = apply_layers hs enc_x1;
               neg_x2' = apply_layers hs neg_x2;
               merged_inputs = map2 (+) enc_x1' neg_x2'
           in Inr (sigmoid (affine (output_node nw) merged_inputs))))"

text \<open>
  The property \<open>RankNetCore.scoring_model\<close>: all hidden layers, then the same
  sigmoid output unit.
\<close>

definition scoring_model :: "net \<Rightarrow> features \<Rightarrow> real" where
  "scoring_model nw x = sigmoid (affine (output_node nw) (apply_layers (hidden_layers nw) x))"

text \<open>
  \<open>RankNetCore._predict_scores_fixed\<close>: the batch is flattened to objects, scored,
  and reshaped back to \<open>(n_instances, n_objects)\<close>.
\<close>

definition ranknet_predict_scores_fixed :: "net \<Rightarrow> batch \<Rightarrow> score_matrix" where
  "ranknet_predict_scores_fixed nw X = map (map (scoring_model nw)) X"

section \<open>CmpNet (\<open>CmpNetCore\<close>)\<close>

text \<open>
  \<open>CmpNetCore.construct_model\<close>: both concatenations pass through the shared hidden
  layers; the sigmoid output unit yields \<open>N_g\<close> and \<open>N_l\<close>.
\<close>

definition cmpnet_construct_model :: "net \<Rightarrow> features \<Rightarrow> features \<Rightarrow> real \<times> real" where
  "cmpnet_construct_model nw x1 x2 =
     (let x1x2 = apply_layers (hidden_layers nw) (x1 @ x2);
          x2x1 = apply_layers (hidden_layers nw) (x2 @ x1);
          merged_left = x1x2 @ x2x1;
          merged_right = x2x1 @ x1x2;
          N_g = sigmoid (affine (output_node nw) merged_left);
          N_l = sigmoid (affine (output_node nw) merged_right)
      in (N_g, N_l))"

text \<open>\<open>itertools.permutations(range(n), 2)\<close>\<close>

definition permutations2 :: "nat \<Rightarrow> (nat \<times> nat) list" where
  "permutations2 n =
     concat (map (\<lambda>i. map (\<lambda>j. (i, j)) (filter (\<lambda>j. j \<noteq> i) [0..<n])) [0..<n])"

text \<open>
  \<open>result.reshape(r, c)\<close> on a flat array raises \<open>ValueError\<close> unless the array has
  \<open>r * c\<close> elements; \<open>mean(axis=1)\<close> averages each row.
\<close>

definition reshape2 :: "nat \<Rightarrow> nat \<Rightarrow> 'a list \<Rightarrow> error + 'a list list" where
  "reshape2 r c xs =
     (if length xs = r * c then Inr (map (\<lambda>i. take c (drop (i * c) xs)) [0..<r])
      else Inl ValueError)"

definition mean :: "real list \<Rightarrow> real" where
  "mean row = sum_list row / real (length row)"

text \<open>
  The body of the instance loop shared by \<open>CmpNetCore._predict_scores_fixed\<close> and
  \<open>FETADiscreteChoiceFunction._predict_scores_using_pairs\<close>: fill \<open>pairs\<close> in
  the order of \<open>permutations\<close>, take column \<open>0\<close> of the pairwise prediction, reshape
  to \<open>(n_objects, n_objects - 1)\<close> and average the rows.  With fewer than two objects
  there is no pair: the pairwise model is called on an empty batch and every row of the
  reshaped result is empty, so no real-valued score comes out; the model returns
  \<open>Raised ''empty pair batch''\<close> there.
\<close>

definition pairwise_row_means ::
  "(features \<Rightarrow> features \<Rightarrow> real \<times> real) \<Rightarrow> query \<Rightarrow> error + real list" where
  "pairwise_row_means predict_pair q =
     (let n_objects = length q;
          pairs = map (\<lambda>(i, j). (q ! i, q ! j)) (permutations2 n_objects);
          result = map (\<lambda>(a, b). fst (predict_pair a b)) pairs
      in if n_objects < 2 then Inl (Raised ''empty pair batch'')
         else (case reshape2 n_objects (n_objects - 1) result of
                 Inl e \<Rightarrow> Inl e
               | Inr rows \<Rightarrow> Inr (map mean rows)))"

text \<open>The loop \<open>for n in range(n_instances)\<close>: the first failing instance raises.\<close>

fun for_instances :: "('a \<Rightarrow> error + 'b) \<Rightarrow> 'a list \<Rightarrow> error + 'b list" where
  "for_instances f [] = Inr []"
| "for_instances f (q # X) =
     (case f q of
        Inl e \<Rightarrow> Inl e
      | Inr s \<Rightarrow> (case for_instances f X of Inl e \<Rightarrow> Inl e | Inr S \<Rightarrow> Inr (s # S)))"

definition cmpnet_predict_scores_fixed :: "net \<Rightarrow> batch \<Rightarrow> error + score_matrix" where
  "cmpnet_predict_scores_fixed nw X =
     for_instances (pairwise_row_means (cmpnet_construct_model nw)) X"

section \<open>FETA (\<open>FETADiscreteChoiceFunction\<close>)\<close>

record feta = net +
  hidden_layers_zeroth :: "layer list"
  output_node_zeroth :: unit_weights
  weighted_sum :: unit_weights
  add_zeroth_order_model :: bool

text \<open>
  Modelled from the spec: \<open>FETANetwork._predict_pair\<close> with \<open>only_pairwise=True\<close>
  is not part of the sources at hand.  It evaluates the CmpNet-style pairwise
  sub-network built from the shared \<open>hidden_layers\<close> and \<open>output_node\<close>; in the
  discrete-choice variant \<open>output_node\<close> has a linear activation.
\<close>

definition feta_predict_pair :: "feta \<Rightarrow> features \<Rightarrow> features \<Rightarrow> real \<times> real" where
  "feta_predict_pair nw x1 x2 =
     (let x1x2 = apply_layers (hidden_layers nw) (x1 @ x2);
          x2x1 = apply_layers (hidden_layers nw) (x2 @ x1);
          N_g = affine (output_node nw) (x1x2 @ x2x1);
          N_l = affine (output_node nw) (x2x1 @ x1x2)
      in (N_g, N_l))"

text \<open>
  \<open>_create_zeroth_order_model\<close>: the zeroth-order tower followed by
  \<open>Activation("sigmoid")\<close>.  Nothing in the sources at hand calls this method.
\<close>

definition create_zeroth_order_model :: "feta \<Rightarrow> features \<Rightarrow> real" where
  "create_zeroth_order_model nw x =
     sigmoid (affine (output_node_zeroth nw) (apply_layers (hidden_layers_zeroth nw) x))"

text \<open>
  Modelled from the spec: the attribute \<open>zero_order_model\<close> that
  \<open>_predict_scores_using_pairs\<close> reads is assigned by \<open>FETANetwork\<close>, which is not
  part of the sources at hand.  By the specification the prediction graph is re-derived
  from the trained shared weights and the zeroth-order score of an object comes from the
  shared tower: the layers \<open>hidden_layers_zeroth\<close> followed by the linear unit
  \<open>output_node_zeroth\<close>.
\<close>

definition zero_order_model :: "feta \<Rightarrow> features \<Rightarrow> real" where
  "zero_order_model nw x =
     affine (output_node_zeroth nw) (apply_layers (hidden_layers_zeroth nw) x)"

text \<open>
  \<open>_create_weighted_model(n_objects)\<close>: the sigmoid unit \<open>weighted_sum\<close> applied
  to the pair of the \<open>i\<close>-th entries of its two inputs.
\<close>

definition create_weighted_model :: "feta \<Rightarrow> nat \<Rightarrow> real list \<Rightarrow> real list \<Rightarrow> real list" where
  "create_weighted_model nw n_objects s1 s2 =
     map (\<lambda>i. sigmoid (affine (weighted_sum nw) [s1 ! i, s2 ! i])) [0..<n_objects]"

text \<open>\<open>_predict_scores_using_pairs\<close>, for one instance and for a batch.\<close>

definition feta_instance_scores_using_pairs :: "feta \<Rightarrow> query \<Rightarrow> error + real list" where
  "feta_instance_scores_using_pairs nw q =
     (case pairwise_row_means (feta_predict_pair nw) q of
        Inl e \<Rightarrow> Inl e
      | Inr scores \<Rightarrow>
          if add_zeroth_order_model nw
          then (let scores_zero = map (zero_order_model nw) q
                in Inr (create_weighted_model nw (length q) scores scores_zero))
          else Inr (map sigmoid scores))"

definition predict_scores_using_pairs :: "feta \<Rightarrow> batch \<Rightarrow> error + score_matrix" where
  "predict_scores_using_pairs nw X = for_instances (feta_instance_scores_using_pairs nw) X"

section \<open>Vocabulary of the statements about pair enumeration\<close>

text \<open>The lexicographic order on index pairs, and the competitors of object \<open>i\<close>.\<close>

definition lex_less :: "nat \<times> nat \<Rightarrow> nat \<times> nat \<Rightarrow> bool" where
  "lex_less p q = (fst p < fst q \<or> (fst p = fst q \<and> snd p < snd q))"

definition competitors :: "nat \<Rightarrow> nat \<Rightarrow> nat list" where
  "competitors n i = filter (\<lambda>j. j \<noteq> i) [0..<n]"

text \<open>Small concrete networks on one-feature objects, used to run the definitions.\<close>

definition example_cmpnet :: net where
  "example_cmpnet = \<lparr>hidden_layers = [], output_node = \<lparr>kernel = [1, - 1, 0, 0], bias = 0\<rparr>\<rparr>"

definition example_feta :: feta where
  "example_feta = \<lparr>hidden_layers = [], output_node = \<lparr>kernel = [1, - 1, 0, 0], bias = 0\<rparr>,
     hidden_layers_zeroth = [], output_node_zeroth = \<lparr>kernel = [1], bias = 0\<rparr>,
     weighted_sum = \<lparr>kernel = [0, 1], bias = 0\<rparr>, add_zeroth_order_model = True\<rparr>"

definition example_ranknet :: net where
  "example_ranknet =
     \<lparr>hidden_layers = [Dense relu [\<lparr>kernel = [1], bias = 0\<rparr>]],
      output_node = \<lparr>kernel = [1], bias = - 10\<rparr>\<rparr>"

text \<open>
  Two more RankNet weight settings on one-feature objects: two ReLU hidden layers without
  any bias, and a single hidden layer with a zero output bias.
\<close>

definition example_ranknet_deep :: net where
  "example_ranknet_deep =
     \<lparr>hidden_layers = [Dense relu [\<lparr>kernel = [1], bias = 0\<rparr>], Dense relu [\<lparr>kernel = [1], bias = 0\<rparr>]],
      output_node = \<lparr>kernel = [- 1], bias = 0\<rparr>\<rparr>"

definition example_ranknet_unbiased :: net where
  "example_ranknet_unbiased =
     \<lparr>hidden_layers = [Dense relu [\<lparr>kernel = [1], bias = 0\<rparr>]],
      output_node = \<lparr>kernel = [1], bias = 0\<rparr>\<rparr>"

section \<open>Fitting the choice functions\<close>

text \<open>
  The calls a \<open>fit\<close> makes to its collaborators, in order: \<open>train_test_split\<close>, the
  inherited \<open>super().fit\<close>, and \<open>_tune_threshold\<close>.
\<close>

datatype call = TrainTestSplit | SuperFit | TuneThreshold

text \<open>
  The learner as far as \<open>fit\<close> touches it: \<open>fitted\<close> is everything the inherited
  \<open>fit\<close> writes (layers, weights), \<open>threshold\<close> the attribute \<open>threshold\<close>
  (\<open>threshold_\<close> in \<open>RankNetChoiceFunction\<close>, \<open>None\<close> while it is not set), and
  \<open>calls\<close> the trace of collaborator calls.
\<close>

record 'm choice_learner =
  fitted :: 'm
  threshold :: "real option"
  calls :: "call list"

text \<open>
  \<open>FETAChoiceFunction.fit\<close>.  The collaborators are parameters:
  \<open>train_test_split\<close> (scikit-learn) may raise; \<open>super_fit\<close> is the inherited
  \<open>fit\<close>, which returns the state it leaves behind together with the exception it
  raised, if any; \<open>predict_scores\<close> is \<open>self.predict_scores\<close> on that state;
  \<open>f1_score\<close> is the metric of the tuner.  The
  result is the learner after the call and the exception that leaves \<open>fit\<close>.  In the
  \<open>try \<dots> finally\<close> block the tuner runs whether or not \<open>super().fit\<close> raised; an
  exception raised inside \<open>finally\<close> replaces the pending one.
\<close>

definition FETAChoiceFunction_fit ::
  "(label_matrix \<Rightarrow> label_matrix \<Rightarrow> error + real)
   \<Rightarrow> ('x \<Rightarrow> label_matrix \<Rightarrow> real \<Rightarrow> error + ('x \<times> 'x \<times> label_matrix \<times> label_matrix))
   \<Rightarrow> ('m \<Rightarrow> 'x \<Rightarrow> label_matrix \<Rightarrow> 'm \<times> error option)
   \<Rightarrow> ('m \<Rightarrow> 'x \<Rightarrow> error + score_matrix)
   \<Rightarrow> 'm choice_learner \<Rightarrow> 'x \<Rightarrow> label_matrix \<Rightarrow> real \<Rightarrow> int
   \<Rightarrow> 'm choice_learner \<times> error option" where
  "FETAChoiceFunction_fit f1_score train_test_split super_fit predict_scores s X Y tune_size
       thin_thresholds =
     (if 0 < tune_size then
        (case train_test_split X Y tune_size of
           Inl e \<Rightarrow> (s\<lparr>calls := calls s @ [TrainTestSplit]\<rparr>, Some e)
         | Inr (X_train, X_val, Y_train, Y_val) \<Rightarrow>
             (case super_fit (fitted s) X_train Y_train of
                (m, raised) \<Rightarrow>
                  (let s1 = s\<lparr>fitted := m, calls := calls s @ [TrainTestSplit, SuperFit, TuneThreshold]\<rparr>
                   in case tune_threshold f1_score (predict_scores m) X_val Y_val thin_thresholds of
                        Inl e \<Rightarrow> (s1, Some e)
                      | Inr t \<Rightarrow> (s1\<lparr>threshold := Some t\<rparr>, raised))))
      else
        (case super_fit (fitted s) X Y of
           (m, raised) \<Rightarrow>
             (let s1 = s\<lparr>fitted := m, calls := calls s @ [SuperFit]\<rparr>
              in case raised of
                   Some e \<Rightarrow> (s1, Some e)
                 | None \<Rightarrow> (s1\<lparr>threshold := Some (1 / 2)\<rparr>, None))))"

text \<open>
  \<open>RankNetChoiceFunction.fit\<close> has the same shape (\<open>_pre_fit\<close> does nothing).  Its
  \<open>_tune_threshold\<close> is inherited from \<open>ChoiceFunctions\<close>, which is not among the
  sources at hand, and is the parameter \<open>tune\<close>.
\<close>

definition RankNetChoiceFunction_fit ::
  "('x \<Rightarrow> label_matrix \<Rightarrow> real \<Rightarrow> error + ('x \<times> 'x \<times> label_matrix \<times> label_matrix))
   \<Rightarrow> ('m \<Rightarrow> 'x \<Rightarrow> label_matrix \<Rightarrow> 'm \<times> error option)
   \<Rightarrow> ('m \<Rightarrow> 'x \<Rightarrow> label_matrix \<Rightarrow> int \<Rightarrow> error + real)
   \<Rightarrow> 'm choice_learner \<Rightarrow> 'x \<Rightarrow> label_matrix \<Rightarrow> real \<Rightarrow> int
   \<Rightarrow> 'm choice_learner \<times> error option" where
  "RankNetChoiceFunction_fit train_test_split super_fit tune s X Y tune_size thin_thresholds =
     (if 0 < tune_size then
        (case train_test_split X Y tune_size of
           Inl e \<Rightarrow> (s\<lparr>calls := calls s @ [TrainTestSplit]\<rparr>, Some e)
         | Inr (X_train, X_val, Y_train, Y_val) \<Rightarrow>
             (case super_fit (fitted s) X_train Y_train of
                (m, raised) \<Rightarrow>
                  (let s1 = s\<lparr>fitted := m, calls := calls s @ [TrainTestSplit, SuperFit, TuneThreshold]\<rparr>
                   in case tune m X_val Y_val thin_thresholds of
                        Inl e \<Rightarrow> (s1, Some e)
                      | Inr t \<Rightarrow> (s1\<lparr>threshold := Some t\<rparr>, raised))))
      else
        (case super_fit (fitted s) X Y of
           (m, raised) \<Rightarrow>
             (let s1 = s\<lparr>fitted := m, calls := calls s @ [SuperFit]\<rparr>
              in case raised of
                   Some e \<Rightarrow> (s1, Some e)
                 | None \<Rightarrow> (s1\<lparr>threshold := Some (1 / 2)\<rparr>, None))))"

text \<open>
  Collaborators for running \<open>fit\<close> on small inputs: a split that keeps the first
  instance for validation, an inherited \<open>fit\<close> that fails with
  \<open>Raised ''training failed''\<close> and leaves the state as it was, and a
  \<open>predict_scores\<close> that returns its argument as scores on a trained state
  (\<open>True\<close>) and raises \<open>AttributeError\<close> on an untrained one.
\<close>

definition example_split ::
  "score_matrix \<Rightarrow> label_matrix \<Rightarrow> real \<Rightarrow> error + (score_matrix \<times> score_matrix \<times> label_matrix \<times> label_matrix)" where
  "example_split X Y tune_size = Inr (drop 1 X, take 1 X, drop 1 Y, take 1 Y)"

definition example_fit_fails :: "bool \<Rightarrow> score_matrix \<Rightarrow> label_matrix \<Rightarrow> bool \<times> error option" where
  "example_fit_fails m X Y = (m, Some (Raised ''training failed''))"

definition example_predict_scores :: "bool \<Rightarrow> score_matrix \<Rightarrow> error + score_matrix" where
  "example_predict_scores m X = (if m then Inr X else Inl AttributeError)"

definition example_learner :: "bool \<Rightarrow> bool choice_learner" where
  "example_learner m = \<lparr>fitted = m, threshold = Some (1 / 2), calls = []\<rparr>"

section \<open>Prediction (\<open>Learner.predict_scores\<close>, \<open>predict\<close>)\<close>

text \<open>
  The argument of \<open>predict_scores\<close> and \<open>predict\<close> is a single array or a
  \<open>dict\<close> from query-set size to array; a \<open>dict\<close> is the list of its items in
  iteration order.
\<close>

datatype 'a array_or_dict = Array 'a | Dict "(nat \<times> 'a) list"

text \<open>
  \<open>Learner.predict_scores\<close>.  \<open>_predict_scores_fixed\<close> is abstract in
  \<open>Learner\<close> and is the parameter \<open>predict_scores_fixed\<close>, which may raise.  To
  count the runs of the scoring network, the batches handed to it are appended to a
  list \<open>runs\<close> that is threaded through.
\<close>

fun predict_scores_items ::
  "(batch \<Rightarrow> error + score_matrix) \<Rightarrow> (nat \<times> batch) list \<Rightarrow> batch list
   \<Rightarrow> (error + (nat \<times> score_matrix) list) \<times> batch list" where
  "predict_scores_items predict_scores_fixed [] runs = (Inr [], runs)"
| "predict_scores_items predict_scores_fixed ((ranking_size, x) # items) runs =
     (case predict_scores_fixed x of
        Inl e \<Rightarrow> (Inl e, runs @ [x])
      | Inr sc \<Rightarrow>
          (case predict_scores_items predict_scores_fixed items (runs @ [x]) of
             (Inl e, runs') \<Rightarrow> (Inl e, runs')
           | (Inr scores, runs') \<Rightarrow> (Inr ((ranking_size, sc) # scores), runs')))"

definition Learner_predict_scores ::
  "(batch \<Rightarrow> error + score_matrix) \<Rightarrow> batch array_or_dict \<Rightarrow> batch list
   \<Rightarrow> (error + score_matrix array_or_dict) \<times> batch list" where
  "Learner_predict_scores predict_scores_fixed X runs =
     (case X of
        Dict items \<Rightarrow>
          (case predict_scores_items predict_scores_fixed items runs of
             (Inl e, runs') \<Rightarrow> (Inl e, runs')
           | (Inr scores, runs') \<Rightarrow> (Inr (Dict scores), runs'))
      | Array x \<Rightarrow>
          (case predict_scores_fixed x of
             Inl e \<Rightarrow> (Inl e, runs @ [x])
           | Inr scores \<Rightarrow> (Inr (Array scores), runs @ [x])))"

text \<open>
  \<open>Learner.predict\<close>: the scores of \<open>predict_scores\<close> are handed to
  \<open>predict_for_scores\<close>, which the variants override.
\<close>

definition Learner_predict ::
  "(batch \<Rightarrow> error + score_matrix) \<Rightarrow> (score_matrix array_or_dict \<Rightarrow> error + 'p)
   \<Rightarrow> batch array_or_dict \<Rightarrow> batch list \<Rightarrow> (error + 'p) \<times> batch list" where
  "Learner_predict predict_scores_fixed predict_for_scores X runs =
     (case Learner_predict_scores predict_scores_fixed X runs of
        (Inl e, runs') \<Rightarrow> (Inl e, runs')
      | (Inr scores, runs') \<Rightarrow> (predict_for_scores scores, runs'))"

text \<open>
  \<open>FETAChoiceFunction.predict\<close> overrides it.  Its \<open>predict_scores\<close> only
  delegates to the inherited one, and \<open>scores > self.threshold\<close> (\<open>thr\<close> is the
  value of \<open>self.threshold\<close>) is applied to whatever that returned.  On an array this
  is the element-wise comparison; a \<open>dict\<close> cannot be compared with a number and
  Python raises \<open>TypeError\<close>.
\<close>

definition FETAChoiceFunction_predict ::
  "(batch \<Rightarrow> error + score_matrix) \<Rightarrow> real \<Rightarrow> batch array_or_dict \<Rightarrow> batch list
   \<Rightarrow> (error + label_matrix array_or_dict) \<times> batch list" where
  "FETAChoiceFunction_predict predict_scores_fixed thr X runs =
     (case Learner_predict_scores predict_scores_fixed X runs of
        (Inl e, runs') \<Rightarrow> (Inl e, runs')
      | (Inr (Array scores), runs') \<Rightarrow> (Inr (Array (greater_than scores thr)), runs')
      | (Inr (Dict scores), runs') \<Rightarrow> (Inl TypeError, runs'))"

text \<open>
  Modelled from the spec: \<open>predict_for_scores\<close> of the choice-function variants is
  inherited from classes that are not among the sources at hand.  By the decision layer
  of the specification it is the boolean vector \<open>score > threshold\<close> per object, and
  a result has the shape of its argument, per size for a mapping.
\<close>

definition choice_predict_for_scores ::
  "real \<Rightarrow> score_matrix array_or_dict \<Rightarrow> error + label_matrix array_or_dict" where
  "choice_predict_for_scores thr scores =
     (case scores of
        Array s \<Rightarrow> Inr (Array (greater_than s thr))
      | Dict items \<Rightarrow> Inr (Dict (map (\<lambda>(n, s). (n, greater_than s thr)) items)))"

section \<open>Constructor keyword arguments\<close>

text \<open>
  Keyword arguments are a \<open>dict\<close>: the list of its items in iteration order, with
  distinct keys.  \<open>key.startswith(prefix)\<close>:
\<close>

definition startswith :: "string \<Rightarrow> string \<Rightarrow> bool" where
  "startswith key prefix = (take (length prefix) key = prefix)"

text \<open>The local function \<open>starts_with_legal_prefix\<close> of \<open>_store_kwargs\<close>.\<close>

fun starts_with_legal_prefix :: "string list \<Rightarrow> string \<Rightarrow> bool" where
  "starts_with_legal_prefix [] key = False"
| "starts_with_legal_prefix (prefix # allowed_prefixes) key =
     (if startswith key prefix then True else starts_with_legal_prefix allowed_prefixes key)"

text \<open>
  The loop of \<open>_store_kwargs\<close> over \<open>kwargs.keys()\<close>: the first key without a legal
  prefix raises \<open>TypeError\<close>, whose message names the key and the allowed prefixes
  (\<open>UnexpectedKeyword key allowed_prefixes\<close>).
\<close>

fun check_keys :: "string list \<Rightarrow> string list \<Rightarrow> error option" where
  "check_keys allowed_prefixes [] = None"
| "check_keys allowed_prefixes (key # keys) =
     (if \<not> starts_with_legal_prefix allowed_prefixes key
      then Some (UnexpectedKeyword key allowed_prefixes)
      else check_keys allowed_prefixes keys)"

text \<open>
  \<open>Learner._store_kwargs\<close>.  The result is the object after the call and the exception
  that was raised, if any.  \<open>allowed_prefixes_\<close> is assigned first; the keys are
  checked next; only when no key was rejected the keyword arguments are written into the
  attributes of the object (\<open>vars(self).update(kwargs)\<close>).
\<close>

record 'v attributes =
  allowed_prefixes_ :: "string list"
  vars :: "string \<rightharpoonup> 'v"

definition store_kwargs ::
  "'v attributes \<Rightarrow> (string \<times> 'v) list \<Rightarrow> string list \<Rightarrow> 'v attributes \<times> error option" where
  "store_kwargs self kwargs allowed_prefixes =
     (let self1 = self\<lparr>allowed_prefixes_ := allowed_prefixes\<rparr>
      in case check_keys allowed_prefixes (map fst kwargs) of
           Some e \<Rightarrow> (self1, Some e)
         | None \<Rightarrow> (self1\<lparr>vars := vars self1 ++ map_of kwargs\<rparr>, None))"

text \<open>
  The constructor of \<open>FETADiscreteChoiceFunction\<close> calls \<open>_store_kwargs\<close> with
  these prefixes.
\<close>

definition feta_allowed_prefixes :: "string list" where
  "feta_allowed_prefixes = [''optimizer__'', ''kernel_regularizer__'', ''hidden_dense_layer__'']"

text \<open>
  \<open>RankNetCore.__init__\<close> and \<open>CmpNetCore.__init__\<close> treat their keyword arguments
  with the same loop: every key that is not in \<open>allowed_dense_kwargs\<close> is deleted and
  what remains becomes \<open>self.kwargs\<close>.  Nothing is raised.  The constant
  \<open>allowed_dense_kwargs\<close> of \<open>csrank.constants\<close> is a parameter.
\<close>

definition del_key :: "string \<Rightarrow> (string \<times> 'v) list \<Rightarrow> (string \<times> 'v) list" where
  "del_key key kwargs = filter (\<lambda>(k, v). k \<noteq> key) kwargs"

fun delete_unknown_keys :: "string list \<Rightarrow> string list \<Rightarrow> (string \<times> 'v) list \<Rightarrow> (string \<times> 'v) list" where
  "delete_unknown_keys allowed_dense_kwargs [] kwargs = kwargs"
| "delete_unknown_keys allowed_dense_kwargs (key # keys) kwargs =
     (if key \<notin> set allowed_dense_kwargs
      then delete_unknown_keys allowed_dense_kwargs keys (del_key key kwargs)
      else delete_unknown_keys allowed_dense_kwargs keys kwargs)"

definition RankNetCore_init_kwargs :: "string list \<Rightarrow> (string \<times> 'v) list \<Rightarrow> (string \<times> 'v) list" where
  "RankNetCore_init_kwargs allowed_dense_kwargs kwargs =
     delete_unknown_keys allowed_dense_kwargs (map fst kwargs) kwargs"

definition CmpNetCore_init_kwargs :: "string list \<Rightarrow> (string \<times> 'v) list \<Rightarrow> (string \<times> 'v) list" where
  "CmpNetCore_init_kwargs allowed_dense_kwargs kwargs =
     delete_unknown_keys allowed_dense_kwargs (map fst kwargs) kwargs"

section \<open>FETA: the training graph (\<open>FETADiscreteChoiceFunction.construct_model\<close>)\<close>

text \<open>\<open>itertools.combinations(range(n), 2)\<close>\<close>

definition combinations2 :: "nat \<Rightarrow> (nat \<times> nat) list" where
  "combinations2 n = concat (map (\<lambda>i. map (\<lambda>j. (i, j)) [Suc i..<n]) [0..<n])"

text \<open>
  The body of the loop over the combinations: both concatenations through the shared
  hidden layers, then the linear \<open>output_node\<close> on \<open>merged_left\<close> and
  \<open>merged_right\<close>.
\<close>

definition feta_pair_outputs :: "feta \<Rightarrow> features \<Rightarrow> features \<Rightarrow> real \<times> real" where
  "feta_pair_outputs nw x1 x2 =
     (let x1x2 = apply_layers (hidden_layers nw) (x1 @ x2);
          x2x1 = apply_layers (hidden_layers nw) (x2 @ x1);
          merged_left = x1x2 @ x2x1;
          merged_right = x2x1 @ x1x2;
          N_g = affine (output_node nw) merged_left;
          N_l = affine (output_node nw) merged_right
      in (N_g, N_l))"

text \<open>\<open>outputs[i].append(N_g); outputs[j].append(N_l)\<close>\<close>

definition append_outputs :: "feta \<Rightarrow> query \<Rightarrow> real list list \<Rightarrow> nat \<times> nat \<Rightarrow> real list list" where
  "append_outputs nw q outputs ij =
     (case ij of (i, j) \<Rightarrow>
        (case feta_pair_outputs nw (q ! i) (q ! j) of (N_g, N_l) \<Rightarrow>
           (let outputs1 = outputs[i := outputs ! i @ [N_g]]
            in outputs1[j := outputs1 ! j @ [N_l]])))"

text \<open>
  The function that the compiled training model computes on one instance of
  \<open>n_objects_fit_\<close> objects.  The zeroth-order score of an object is the linear
  \<open>output_node_zeroth\<close> on top of the zeroth-order tower; each row of pairwise outputs
  is averaged; with a zeroth-order model the sigmoid unit \<open>weighted_sum\<close> combines
  the two scores of each object, otherwise a sigmoid activation is applied.  A row is
  built by the Keras layer \<open>concatenate\<close>, which raises \<open>ValueError\<close> on a list
  of fewer than two inputs; a row has \<open>n_objects_fit_ - 1\<close> entries, so the graph
  needs at least three objects.
\<close>

definition feta_construct_model :: "feta \<Rightarrow> query \<Rightarrow> error + real list" where
  "feta_construct_model nw q =
     (let n_objects_fit = length q;
          zeroth_order_scores =
            map (\<lambda>x. affine (output_node_zeroth nw) (apply_layers (hidden_layers_zeroth nw) x)) q;
          outputs = foldl (append_outputs nw q) (replicate n_objects_fit []) (combinations2 n_objects_fit);
          scores = map mean outputs
      in if n_objects_fit < 3 then Inl ValueError
         else if add_zeroth_order_model nw
         then Inr (map (\<lambda>i. sigmoid (affine (weighted_sum nw) [scores ! i, zeroth_order_scores ! i]))
                     [0..<n_objects_fit])
         else Inr (map sigmoid scores))"

text \<open>
  A FETA network with one ReLU hidden layer in each tower, on one-feature objects.
\<close>

definition example_feta_trained :: feta where
  "example_feta_trained =
     \<lparr>hidden_layers = [Dense relu [\<lparr>kernel = [1, - 1], bias = 0\<rparr>]],
      output_node = \<lparr>kernel = [1, 0], bias = 0\<rparr>,
      hidden_layers_zeroth = [Dense relu [\<lparr>kernel = [1], bias = 0\<rparr>]],
      output_node_zeroth = \<lparr>kernel = [1], bias = 0\<rparr>,
      weighted_sum = \<lparr>kernel = [1, 1], bias = 0\<rparr>,
      add_zeroth_order_model = True\<rparr>"

section \<open>RankNetCore: layer objects, fit and the cached scoring model\<close>

text \<open>
  Keras layers are objects with mutable weights, and a model built from layers refers to
  them.  The heap holds the layer sets (\<open>hidden_layers\<close> with \<open>output_node\<close>) that
  \<open>_construct_layers\<close> has created; \<open>layers\<close> is the reference held by the
  attributes \<open>self.hidden_layers\<close> and \<open>self.output_node\<close> (none before the first
  \<open>fit\<close>), and \<open>scoring_model_cache\<close> is the attribute \<open>_scoring_model\<close>: the
  reference to the layers the scoring model was built from, or none.
\<close>

record ranknet_core =
  heap :: "net list"
  layers :: "nat option"
  scoring_model_cache :: "nat option"

text \<open>\<open>RankNetCore.__init__\<close> sets \<open>_scoring_model = None\<close>.\<close>

definition RankNetCore_init :: ranknet_core where
  "RankNetCore_init = \<lparr>heap = [], layers = None, scoring_model_cache = None\<rparr>"

text \<open>
  \<open>RankNetCore.fit\<close>: \<open>_construct_layers\<close> creates fresh layer objects (with the
  initial weights \<open>fresh\<close>) and rebinds the attributes; \<open>construct_model\<close> and
  \<open>model_.fit\<close> then train exactly these objects in place (\<open>train\<close>, the Keras
  optimisation on the converted data).  \<open>_scoring_model\<close> is not assigned.  The calls
  inside are taken to return.
\<close>

definition RankNetCore_fit :: "net \<Rightarrow> (net \<Rightarrow> 'd \<Rightarrow> net) \<Rightarrow> ranknet_core \<Rightarrow> 'd \<Rightarrow> ranknet_core" where
  "RankNetCore_fit fresh train s data =
     (let a = length (heap s);
          s1 = s\<lparr>heap := heap s @ [fresh], layers := Some a\<rparr>
      in s1\<lparr>heap := (heap s1)[a := train (heap s1 ! a) data]\<rparr>)"

text \<open>
  The property \<open>scoring_model\<close>: built from the current layers only if
  \<open>_scoring_model is None\<close>, and cached.  Without layers the attribute access raises
  \<open>AttributeError\<close>.
\<close>

definition RankNetCore_scoring_model :: "ranknet_core \<Rightarrow> (error + nat) \<times> ranknet_core" where
  "RankNetCore_scoring_model s =
     (case scoring_model_cache s of
        Some a \<Rightarrow> (Inr a, s)
      | None \<Rightarrow>
          (case layers s of
             None \<Rightarrow> (Inl AttributeError, s)
           | Some a \<Rightarrow> (Inr a, s\<lparr>scoring_model_cache := Some a\<rparr>)))"

text \<open>\<open>RankNetCore._predict_scores_fixed\<close> on the learner state.\<close>

definition RankNetCore_predict_scores_fixed ::
  "ranknet_core \<Rightarrow> batch \<Rightarrow> (error + score_matrix) \<times> ranknet_core" where
  "RankNetCore_predict_scores_fixed s X =
     (case RankNetCore_scoring_model s of
        (Inl e, s') \<Rightarrow> (Inl e, s')
      | (Inr a, s') \<Rightarrow> (Inr (ranknet_predict_scores_fixed (heap s' ! a) X), s'))"

text \<open>
  A stand-in for training on one-feature objects: the data is the kernel that the output
  unit ends up with.
\<close>

definition example_train :: "net \<Rightarrow> real list \<Rightarrow> net" where
  "example_train nw data = nw\<lparr>output_node := \<lparr>kernel = data, bias = 0\<rparr>\<rparr>"

text \<open>
  The state of \<open>outputs\<close> in the loop of \<open>construct_model\<close> when all combinations
  with a first index below \<open>m\<close> and the combinations \<open>(m, j)\<close> with \<open>j < j'\<close> are
  done; \<open>g i j\<close> is the pairwise output of object \<open>i\<close> against object \<open>j\<close>.
\<close>

definition rows_during :: "(nat \<Rightarrow> nat \<Rightarrow> real) \<Rightarrow> nat \<Rightarrow> nat \<Rightarrow> nat \<Rightarrow> nat \<Rightarrow> real list" where
  "rows_during g n m j' k =
     (if k < m then map (g k) (competitors n k)
      else if k = m then map (g m) ([0..<m] @ [Suc m..<j'])
      else if k < j' then map (g k) [0..<Suc m]
      else map (g k) [0..<m])"

section \<open>Properties of the threshold tuner\<close>

lemma np_unique_sorted_distinct:
  "sorted (np_unique scores) \<and> distinct (np_unique scores)
     \<and> set (np_unique scores) = set (concat scores)"
  by (simp add: np_unique_def)

lemma stride_every_kth:
  "0 < k \<Longrightarrow> stride k xs = map (\<lambda>m. xs ! (m * k)) [0..<(length xs + k - 1) div k]"
proof (induction k xs rule: stride.induct)
  case (1 k)
  then show ?case by simp
next
  case (2 k x xs)
  let ?n = "length xs"
  let ?ys = "drop (k - 1) xs"
  have cnt: "(length (x # xs) + k - 1) div k = Suc (?n div k)"
    using 2(2) by simp
  have len: "(length ?ys + k - 1) div k = ?n div k"
  proof (cases "k - 1 \<le> ?n")
    case True
    then have "length ?ys + k - 1 = ?n" using 2(2) by simp
    then show ?thesis by (simp only:)
  next
    case False
    then have "length ?ys = 0" and "?n < k" by simp_all
    then show ?thesis using 2(2) by simp
  qed
  have idx: "(x # xs) ! (Suc m * k) = ?ys ! (m * k)" if "m < ?n div k" for m
  proof -
    have "Suc m \<le> ?n div k" using that by simp
    then have "Suc m * k \<le> (?n div k) * k" by (rule mult_le_mono1)
    also have "\<dots> \<le> ?n" by simp
    finally have "Suc m * k \<le> ?n" .
    then have b: "(k - 1) + m * k < ?n" and e: "Suc m * k = Suc ((k - 1) + m * k)"
      using 2(2) by simp_all
    show ?thesis unfolding e using b by simp
  qed
  have "map (\<lambda>m. (x # xs) ! (m * k)) [0..<Suc (?n div k)]
          = x # map (\<lambda>m. (x # xs) ! (Suc m * k)) [0..<?n div k]"
    by (simp add: upt_conv_Cons map_Suc_upt [symmetric] del: upt_Suc)
  also have "map (\<lambda>m. (x # xs) ! (Suc m * k)) [0..<?n div k]
          = map (\<lambda>m. ?ys ! (m * k)) [0..<?n div k]"
    using idx by simp
  also have "\<dots> = stride k ?ys"
    using 2 len by simp
  finally show ?case using cnt by simp
qed

lemma tune_loop_first_maximum:
  assumes "\<forall>p \<in> set ps. f p = Inr (F p)" and "best = F t"
  shows "\<exists>t' pre post. tune_loop f ps (t, best) = Inr (t', F t')
           \<and> t # ps = pre @ t' # post
           \<and> (\<forall>x \<in> set pre. F x < F t')
           \<and> (\<forall>x \<in> set post. F x \<le> F t')"
  using assms
proof (induction ps arbitrary: t best)
  case Nil
  have "[t] = [] @ t # []" by simp
  then show ?case using Nil by fastforce
next
  case (Cons p ps)
  have fp: "f p = Inr (F p)" and rest: "\<forall>p \<in> set ps. f p = Inr (F p)"
    using Cons.prems(1) by simp_all
  show ?case
  proof (cases "best < F p")
    case True
    from Cons.IH [OF rest, of "F p" p] obtain t' pre post where
      res: "tune_loop f ps (p, F p) = Inr (t', F t')"
      and split: "p # ps = pre @ t' # post"
      and lo: "\<forall>x \<in> set pre. F x < F t'" and hi: "\<forall>x \<in> set post. F x \<le> F t'"
      by blast
    have "p \<in> set (pre @ t' # post)" using split by (metis list.set_intros(1))
    then have "F p \<le> F t'" using lo hi by auto
    then have "F t < F t'" using True Cons.prems(2) by simp
    then have "\<forall>x \<in> set (t # pre). F x < F t'" using lo by simp
    moreover have "t # p # ps = (t # pre) @ t' # post" using split by simp
    moreover have "tune_loop f (p # ps) (t, best) = Inr (t', F t')"
      using True fp res by simp
    ultimately show ?thesis using hi by blast
  next
    case False
    from Cons.IH [OF rest Cons.prems(2)] obtain t' pre post where
      res: "tune_loop f ps (t, best) = Inr (t', F t')"
      and split: "t # ps = pre @ t' # post"
      and lo: "\<forall>x \<in> set pre. F x < F t'" and hi: "\<forall>x \<in> set post. F x \<le> F t'"
      by blast
    have eq: "tune_loop f (p # ps) (t, best) = Inr (t', F t')"
      using False fp res by simp
    show ?thesis
    proof (cases pre)
      case Nil
      have "t # ps = t' # post" using split unfolding Nil append_Nil .
      then have t: "t' = t" and post: "post = ps" by (metis list.inject)+
      have "t # p # ps = [] @ t' # (p # post)" using t post by simp
      moreover have "\<forall>x \<in> set (p # post). F x \<le> F t'"
        using hi False Cons.prems(2) t by auto
      moreover have "\<forall>x \<in> set []. F x < F t'" by simp
      ultimately show ?thesis using eq by blast
    next
      case (Cons a pre')
      have "t # ps = a # pre' @ t' # post" using split unfolding Cons append_Cons .
      then have a: "a = t" and ps: "ps = pre' @ t' # post" by (metis list.inject)+
      have "F t < F t'" using lo Cons a by simp
      then have "\<forall>x \<in> set (t # p # pre'). F x < F t'"
        using lo Cons False \<open>best = F t\<close> by auto
      moreover have "t # p # ps = (t # p # pre') @ t' # post" using ps by simp
      ultimately show ?thesis using eq hi by blast
    qed
  qed
qed

text \<open>An exception of the metric on the baseline leaves the tuner.\<close>

lemma tune_threshold_baseline_raises:
  "predict_scores X_val = Inr scores \<Longrightarrow> 1 \<le> thin_thresholds
     \<Longrightarrow> f1_score Y_val (greater_than scores 0) = Inl e
     \<Longrightarrow> tune_threshold f1_score predict_scores X_val Y_val thin_thresholds = Inl e"
  by (simp add: tune_threshold_def slice_step_def)

text \<open>
  Claim C2.  Let the stride be \<open>thin_thresholds \<ge> 1\<close>, let \<open>predict_scores\<close> return
  \<open>scores\<close>, and let \<open>F c\<close> be the sample-averaged F1 that \<open>f1_score\<close> returns
  for the labels and the prediction \<open>scores > c\<close>, for the baseline \<open>0.0\<close> and for
  every scanned candidate.  Then the tuner returns a threshold.  Its candidates are the
  baseline \<open>0.0\<close> followed by every \<open>thin_thresholds\<close>-th value of the ascending,
  duplicate-free list of all predicted scores.  The returned threshold is a candidate
  whose F1 is maximal among all candidates, and it is the earliest such candidate in
  evaluation order: every candidate before it has a strictly smaller F1.  In particular,
  when no scanned score strictly beats the baseline, the result is \<open>0.0\<close>.
\<close>

theorem tune_threshold_earliest_best_candidate:
  assumes stride: "1 \<le> thin_thresholds"
    and scores: "predict_scores X_val = Inr scores"
    and metric: "\<forall>c \<in> set (0 # stride (nat thin_thresholds) (np_unique scores)).
                   f1_score Y_val (greater_than scores c) = Inr (F c)"
  shows "\<exists>t pre post.
           tune_threshold f1_score predict_scores X_val Y_val thin_thresholds = Inr t
         \<and> sorted (np_unique scores) \<and> distinct (np_unique scores)
         \<and> set (np_unique scores) = set (concat scores)
         \<and> stride (nat thin_thresholds) (np_unique scores)
             = map (\<lambda>m. np_unique scores ! (m * nat thin_thresholds))
                 [0..<(length (np_unique scores) + nat thin_thresholds - 1) div nat thin_thresholds]
         \<and> 0 # stride (nat thin_thresholds) (np_unique scores) = pre @ t # post
         \<and> (\<forall>c \<in> set pre. F c < F t)
         \<and> (\<forall>c \<in> set post. F c \<le> F t)
         \<and> ((\<forall>p \<in> set (stride (nat thin_thresholds) (np_unique scores)). \<not> F 0 < F p)
               \<longrightarrow> t = 0)"
proof -
  let ?k = "nat thin_thresholds"
  let ?probs = "stride ?k (np_unique scores)"
  let ?f = "\<lambda>p. f1_score Y_val (greater_than scores p)"
  have k: "0 < ?k" using stride by simp
  have base0: "?f 0 = Inr (F 0)" and cand: "\<forall>p \<in> set ?probs. ?f p = Inr (F p)"
    using metric by simp_all
  from tune_loop_first_maximum [OF cand refl, of 0] obtain t pre post where
    loop: "tune_loop ?f ?probs (0, F 0) = Inr (t, F t)"
    and split: "0 # ?probs = pre @ t # post"
    and lo: "\<forall>x \<in> set pre. F x < F t"
    and hi: "\<forall>x \<in> set post. F x \<le> F t"
    by blast
  have res: "tune_threshold f1_score predict_scores X_val Y_val thin_thresholds = Inr t"
    using stride scores base0 loop by (simp add: tune_threshold_def slice_step_def)
  have base: "t = 0" if none: "\<forall>p \<in> set ?probs. \<not> F 0 < F p"
  proof (cases pre)
    case Nil
    have "0 # ?probs = t # post" using split unfolding Nil append_Nil .
    then show ?thesis by (metis list.inject)
  next
    case (Cons a pre')
    have "0 # ?probs = a # pre' @ t # post" using split unfolding Cons append_Cons .
    then have "a = 0" and "?probs = pre' @ t # post" by (metis list.inject)+
    then have "a = 0" and "t \<in> set ?probs" by (metis, metis in_set_conv_decomp)
    then show ?thesis using lo Cons none by auto
  qed
  show ?thesis
    using res split lo hi base np_unique_sorted_distinct [of scores] stride_every_kth [OF k]
    by blast
qed

theorem tune_threshold_earliest_best_candidate_witness:
  "\<exists>t pre post.
     tune_threshold example_f1_score (\<lambda>_ :: unit. Inr [[1/5, 4/5], [3/5, 2/5]]) ()
         [[False, True], [True, False]] 1 = Inr t
   \<and> t = 2/5
   \<and> 0 # stride (nat 1) (np_unique [[1/5, 4/5], [3/5, 2/5]]) = pre @ t # post
   \<and> (\<forall>c \<in> set pre. example_f1_values c < example_f1_values t)
   \<and> (\<forall>c \<in> set post. example_f1_values c \<le> example_f1_values t)"
proof -
  let ?S = "[[1/5, 4/5], [3/5, 2/5 :: real]]"
  let ?Y = "[[False, True], [True, False]]"
  have h1: "(1::int) \<le> 1" by simp
  have h2: "(\<lambda>_ :: unit. Inr ?S :: error + score_matrix) () = Inr ?S" by simp
  have probs: "stride (Suc 0) (np_unique ?S) = [1/5, 2/5, 3/5, 4/5]"
    by (simp add: np_unique_def)
  have f: "example_f1_score ?Y (greater_than ?S 0) = Inr (2/3)"
    "example_f1_score ?Y (greater_than ?S (1/5)) = Inr (5/6)"
    "example_f1_score ?Y (greater_than ?S (2/5)) = Inr 1"
    "example_f1_score ?Y (greater_than ?S (3/5)) = Inr (1/2)"
    "example_f1_score ?Y (greater_than ?S (4/5)) = Inr 0"
    by (simp_all add: example_f1_score_def f1_row_def greater_than_def)
  have h3: "\<forall>c \<in> set (0 # stride (nat 1) (np_unique ?S)).
              example_f1_score ?Y (greater_than ?S c) = Inr (example_f1_values c)"
    by (simp add: probs f example_f1_values_def)
  have val: "tune_threshold example_f1_score (\<lambda>_ :: unit. Inr ?S) () ?Y 1 = Inr (2/5)"
    by (simp add: tune_threshold_def slice_step_def probs f)
  have "\<exists>t pre post.
           tune_threshold example_f1_score (\<lambda>_ :: unit. Inr ?S) () ?Y 1 = Inr t
         \<and> 0 # stride (nat 1) (np_unique ?S) = pre @ t # post
         \<and> (\<forall>c \<in> set pre. example_f1_values c < example_f1_values t)
         \<and> (\<forall>c \<in> set post. example_f1_values c \<le> example_f1_values t)"
    using tune_threshold_earliest_best_candidate
      [where thin_thresholds = 1 and predict_scores = "\<lambda>_ :: unit. Inr ?S"
         and X_val = "()" and scores = ?S and Y_val = ?Y and f1_score = example_f1_score
         and F = example_f1_values, OF h1 h2 h3]
    by blast
  then show ?thesis unfolding val by blast
qed

section \<open>Pair enumeration, row means and score bounds\<close>

lemma length_filter_neq_upt: "i < n \<Longrightarrow> length (filter (\<lambda>j. j \<noteq> i) [0..<n]) = n - 1"
proof -
  assume i: "i < n"
  have "length (filter (\<lambda>j. j \<noteq> i) [0..<n]) = card ({x. x \<noteq> i} \<inter> set [0..<n])"
    by (rule distinct_length_filter) simp
  also have "{x. x \<noteq> i} \<inter> set [0..<n] = {0..<n} - {i}" by auto
  also have "card ({0..<n} - {i}) = n - 1" using i by simp
  finally show ?thesis .
qed

lemma set_permutations2:
  "set (permutations2 n) = {(i, j). i < n \<and> j < n \<and> i \<noteq> j}"
  by (auto simp: permutations2_def)

lemma length_permutations2: "length (permutations2 n) = n * (n - 1)"
proof -
  have "map (\<lambda>i. length (map (\<lambda>j. (i, j)) (filter (\<lambda>j. j \<noteq> i) [0..<n]))) [0..<n]
          = map (\<lambda>i. n - 1) [0..<n]"
    by (rule map_cong) (simp_all add: length_filter_neq_upt)
  then have "sum_list (map (\<lambda>i. length (map (\<lambda>j. (i, j)) (filter (\<lambda>j. j \<noteq> i) [0..<n]))) [0..<n])
          = sum_list (map (\<lambda>i. n - 1) [0..<n])"
    by (rule arg_cong)
  also have "\<dots> = n * (n - 1)" by (simp add: sum_list_triv)
  finally show ?thesis
    by (simp add: permutations2_def length_concat comp_def)
qed

lemma sorted_rows_upto:
  "sorted_wrt lex_less (concat (map (\<lambda>i. map (\<lambda>j. (i, j)) (filter (\<lambda>j. j \<noteq> i) [0..<n])) [0..<m]))"
proof (induction m)
  case 0
  then show ?case by simp
next
  case (Suc m)
  have row: "sorted_wrt lex_less (map (\<lambda>j. (m, j)) (filter (\<lambda>j. j \<noteq> m) [0..<n]))"
    by (simp add: sorted_wrt_map lex_less_def sorted_wrt_filter strict_sorted_iff [symmetric])
  have cross: "lex_less x y"
    if "x \<in> set (concat (map (\<lambda>i. map (\<lambda>j. (i, j)) (filter (\<lambda>j. j \<noteq> i) [0..<n])) [0..<m]))"
      and "y \<in> set (map (\<lambda>j. (m, j)) (filter (\<lambda>j. j \<noteq> m) [0..<n]))" for x y
    using that by (auto simp: lex_less_def)
  show ?case using Suc row cross
    by (simp add: sorted_wrt_append)
qed

lemma sorted_permutations2: "sorted_wrt lex_less (permutations2 n)"
  unfolding permutations2_def by (rule sorted_rows_upto)

lemma sorted_wrt_irrefl_imp_distinct:
  "sorted_wrt R xs \<Longrightarrow> (\<And>x. \<not> R x x) \<Longrightarrow> distinct xs"
  by (induction xs) auto

lemma distinct_permutations2: "distinct (permutations2 n)"
  by (rule sorted_wrt_irrefl_imp_distinct [OF sorted_permutations2]) (simp add: lex_less_def)

lemma reshape_concat_rows:
  assumes "\<forall>row \<in> set rows. length row = c"
  shows "map (\<lambda>i. take c (drop (i * c) (concat rows))) [0..<length rows] = rows"
  using assms
proof (induction rows)
  case Nil
  then show ?case by simp
next
  case (Cons r rows)
  have "map (\<lambda>i. take c (drop (i * c) (concat (r # rows)))) [0..<length (r # rows)]
      = take c (concat (r # rows)) # map (\<lambda>i. take c (drop (Suc i * c) (concat (r # rows)))) [0..<length rows]"
    by (simp add: upt_conv_Cons map_Suc_upt [symmetric] del: upt_Suc)
  also have "take c (concat (r # rows)) = r" using Cons.prems by simp
  also have "map (\<lambda>i. take c (drop (Suc i * c) (concat (r # rows)))) [0..<length rows]
      = map (\<lambda>i. take c (drop (i * c) (concat rows))) [0..<length rows]"
    using Cons.prems by (simp add: add.commute)
  also have "\<dots> = rows" using Cons by simp
  finally show ?case .
qed

lemma reshape2_permutations2:
  "reshape2 n (n - 1) (map g (permutations2 n))
     = Inr (map (\<lambda>i. map (\<lambda>j. g (i, j)) (competitors n i)) [0..<n])"
proof -
  let ?rows = "map (\<lambda>i. map (\<lambda>j. g (i, j)) (competitors n i)) [0..<n]"
  have flat: "map g (permutations2 n) = concat ?rows"
    by (simp add: permutations2_def competitors_def map_concat comp_def)
  have len: "\<forall>row \<in> set ?rows. length row = n - 1"
    by (auto simp: competitors_def length_filter_neq_upt)
  have "map (\<lambda>i. take (n - 1) (drop (i * (n - 1)) (concat ?rows))) [0..<length ?rows] = ?rows"
    using len by (rule reshape_concat_rows)
  then have rows: "map (\<lambda>i. take (n - 1) (drop (i * (n - 1)) (concat ?rows))) [0..<n] = ?rows"
    by simp
  have "reshape2 n (n - 1) (map g (permutations2 n))
          = Inr (map (\<lambda>i. take (n - 1) (drop (i * (n - 1)) (map g (permutations2 n)))) [0..<n])"
    by (simp add: reshape2_def length_permutations2)
  also have "\<dots> = Inr ?rows"
    by (simp only: flat rows)
  finally show ?thesis .
qed

lemma pairwise_row_means_eq:
  assumes "2 \<le> length q"
  shows "pairwise_row_means P q
           = Inr (map (\<lambda>i. mean (map (\<lambda>j. fst (P (q ! i) (q ! j))) (competitors (length q) i)))
                    [0..<length q])"
proof -
  let ?n = "length q"
  let ?g = "\<lambda>(i, j). fst (P (q ! i) (q ! j))"
  have res: "map (\<lambda>(a, b). fst (P a b)) (map (\<lambda>(i, j). (q ! i, q ! j)) (permutations2 ?n))
          = map ?g (permutations2 ?n)"
    by (simp add: case_prod_unfold comp_def)
  have "\<not> ?n < 2" using assms by simp
  then show ?thesis
    unfolding pairwise_row_means_def Let_def res reshape2_permutations2
    by (simp add: comp_def)
qed

lemma pairwise_row_means_fails: "length q < 2 \<Longrightarrow> pairwise_row_means P q = Inl (Raised ''empty pair batch'')"
  by (simp add: pairwise_row_means_def Let_def)

lemma for_instances_all_Inr:
  "(\<And>q. q \<in> set X \<Longrightarrow> f q = Inr (g q)) \<Longrightarrow> for_instances f X = Inr (map g X)"
  by (induction X) simp_all

lemma for_instances_Inr_D:
  "for_instances f X = Inr S \<Longrightarrow> row \<in> set S \<Longrightarrow> \<exists>q \<in> set X. f q = Inr row"
  by (induction X arbitrary: S) (auto split: sum.splits)

lemma sigmoid_bounds: "0 < sigmoid x \<and> sigmoid x < 1"
proof -
  have "0 < exp (- x)" by simp
  then show ?thesis by (simp add: sigmoid_def add_pos_pos)
qed

lemma sigmoid_gt_half_iff: "1 / 2 < sigmoid x \<longleftrightarrow> 0 < x"
proof -
  have "1 / 2 < sigmoid x \<longleftrightarrow> 1 + exp (- x) < 2"
    unfolding sigmoid_def by (simp add: field_simps add_pos_pos)
  also have "\<dots> \<longleftrightarrow> exp (- x) < exp 0" by simp
  also have "\<dots> \<longleftrightarrow> 0 < x" unfolding exp_less_cancel_iff by simp
  finally show ?thesis .
qed

lemma sigmoid_less_iff: "sigmoid x < sigmoid y \<longleftrightarrow> x < y"
proof -
  have "sigmoid x < sigmoid y \<longleftrightarrow> 1 + exp (- y) < 1 + exp (- x)"
    unfolding sigmoid_def by (simp add: frac_less_eq field_simps add_pos_pos)
  also have "\<dots> \<longleftrightarrow> x < y" by simp
  finally show ?thesis .
qed

lemma sum_list_le_length:
  "(\<And>x. x \<in> set xs \<Longrightarrow> x \<le> (1::real)) \<Longrightarrow> sum_list xs \<le> real (length xs)"
  by (induction xs) (simp_all add: add_mono)

lemma mean_in_unit_interval:
  assumes "xs \<noteq> []" and "\<And>x. x \<in> set xs \<Longrightarrow> 0 \<le> x \<and> x \<le> 1"
  shows "0 \<le> mean xs \<and> mean xs \<le> 1"
proof -
  have "0 \<le> sum_list xs" using assms(2) by (simp add: sum_list_nonneg)
  moreover have "sum_list xs \<le> real (length xs)" using assms(2) by (simp add: sum_list_le_length)
  moreover have "0 < real (length xs)" using assms(1) by simp
  ultimately show ?thesis by (simp add: mean_def)
qed

lemma competitors_nonempty: "2 \<le> n \<Longrightarrow> i < n \<Longrightarrow> competitors n i \<noteq> []"
proof -
  assume "2 \<le> n" "i < n"
  then have "length (competitors n i) = n - 1" by (simp add: competitors_def length_filter_neq_upt)
  with \<open>2 \<le> n\<close> show ?thesis by auto
qed

text \<open>
  Claim C4.  For query sets of \<open>n \<ge> 2\<close> objects: the enumeration has \<open>n * (n - 1)\<close>
  entries, namely all ordered index pairs without self-pairs, in strictly ascending
  lexicographic order; reshaping any per-pair result to \<open>(n, n - 1)\<close> puts into row
  \<open>i\<close> the results of \<open>(i, j)\<close> for the \<open>n - 1\<close> competitors \<open>j \<noteq> i\<close> in
  ascending order; the CmpNet score of object \<open>i\<close> is the arithmetic mean of row
  \<open>i\<close>, and so is the first-order FETA score computed by the instance loop of
  \<open>_predict_scores_using_pairs\<close>.
\<close>

theorem pairwise_scores_rows_and_means:
  assumes "\<forall>q \<in> set X. 2 \<le> length q"
  shows "(\<forall>q \<in> set X.
            length (permutations2 (length q)) = length q * (length q - 1)
          \<and> set (permutations2 (length q)) = {(i, j). i < length q \<and> j < length q \<and> i \<noteq> j}
          \<and> sorted_wrt lex_less (permutations2 (length q))
          \<and> distinct (permutations2 (length q))
          \<and> (\<forall>g. reshape2 (length q) (length q - 1) (map g (permutations2 (length q)))
                  = Inr (map (\<lambda>i. map (\<lambda>j. g (i, j)) (competitors (length q) i)) [0..<length q]))
          \<and> (\<forall>i < length q. length (competitors (length q) i) = length q - 1
                  \<and> set (competitors (length q) i) = {j. j < length q \<and> j \<noteq> i}))
       \<and> cmpnet_predict_scores_fixed nw X
           = Inr (map (\<lambda>q. map (\<lambda>i. mean (map (\<lambda>j. fst (cmpnet_construct_model nw (q ! i) (q ! j)))
                                            (competitors (length q) i)))
                              [0..<length q]) X)
       \<and> for_instances (pairwise_row_means (feta_predict_pair fw)) X
           = Inr (map (\<lambda>q. map (\<lambda>i. mean (map (\<lambda>j. fst (feta_predict_pair fw (q ! i) (q ! j)))
                                            (competitors (length q) i)))
                              [0..<length q]) X)"
proof -
  have enum: "length (permutations2 n) = n * (n - 1)
          \<and> set (permutations2 n) = {(i, j). i < n \<and> j < n \<and> i \<noteq> j}
          \<and> sorted_wrt lex_less (permutations2 n)
          \<and> distinct (permutations2 n)
          \<and> (\<forall>g. reshape2 n (n - 1) (map g (permutations2 n))
                  = Inr (map (\<lambda>i. map (\<lambda>j. g (i, j)) (competitors n i)) [0..<n]))
          \<and> (\<forall>i < n. length (competitors n i) = n - 1
                  \<and> set (competitors n i) = {j. j < n \<and> j \<noteq> i})" for n
  proof -
    have "\<forall>i < n. length (competitors n i) = n - 1
                  \<and> set (competitors n i) = {j. j < n \<and> j \<noteq> i}"
      by (auto simp: competitors_def length_filter_neq_upt)
    moreover have "\<forall>g. reshape2 n (n - 1) (map g (permutations2 n))
                  = Inr (map (\<lambda>i. map (\<lambda>j. g (i, j)) (competitors n i)) [0..<n])"
      by (intro allI reshape2_permutations2)
    ultimately show ?thesis
      using length_permutations2 [of n] set_permutations2 [of n] sorted_permutations2 [of n]
        distinct_permutations2 [of n]
      by (intro conjI)
  qed
  have cmp: "cmpnet_predict_scores_fixed nw X
           = Inr (map (\<lambda>q. map (\<lambda>i. mean (map (\<lambda>j. fst (cmpnet_construct_model nw (q ! i) (q ! j)))
                                            (competitors (length q) i)))
                              [0..<length q]) X)"
    unfolding cmpnet_predict_scores_fixed_def
    by (rule for_instances_all_Inr) (use assms in \<open>simp add: pairwise_row_means_eq\<close>)
  have fet: "for_instances (pairwise_row_means (feta_predict_pair fw)) X
           = Inr (map (\<lambda>q. map (\<lambda>i. mean (map (\<lambda>j. fst (feta_predict_pair fw (q ! i) (q ! j)))
                                            (competitors (length q) i)))
                              [0..<length q]) X)"
    by (rule for_instances_all_Inr) (use assms in \<open>simp add: pairwise_row_means_eq\<close>)
  show ?thesis by (intro conjI ballI enum cmp fet)
qed

lemma competitors_3: "competitors 3 0 = [1, 2]" "competitors 3 1 = [0, 2]" "competitors 3 2 = [0, 1]"
  by code_simp+

theorem pairwise_scores_rows_and_means_witness:
  "cmpnet_predict_scores_fixed example_cmpnet [[[1], [2], [3]]]
     = Inr [[(sigmoid (- 1) + sigmoid (- 2)) / 2, (sigmoid 1 + sigmoid (- 1)) / 2,
             (sigmoid 2 + sigmoid 1) / 2]]
   \<and> for_instances (pairwise_row_means (feta_predict_pair example_feta)) [[[1], [2], [3]]]
     = Inr [[- 3 / 2, 0, 3 / 2]]
   \<and> permutations2 3 = [(0, 1), (0, 2), (1, 0), (1, 2), (2, 0), (2, 1)]"
proof -
  let ?X = "[[[1], [2], [3 :: real]]]"
  have h: "\<forall>q \<in> set ?X. 2 \<le> length q" by simp
  have upt3: "[0..<3] = [0, 1, 2]" by code_simp
  have perm: "permutations2 3 = [(0, 1), (0, 2), (1, 0), (1, 2), (2, 0), (2, 1)]"
    by code_simp
  have len: "length [[1], [2], [3 :: real]] = 3" by simp
  from pairwise_scores_rows_and_means [OF h, of example_cmpnet example_feta]
  have cmp: "cmpnet_predict_scores_fixed example_cmpnet ?X
           = Inr (map (\<lambda>q. map (\<lambda>i. mean (map (\<lambda>j. fst (cmpnet_construct_model example_cmpnet (q ! i) (q ! j)))
                                            (competitors (length q) i)))
                              [0..<length q]) ?X)"
    and fet: "for_instances (pairwise_row_means (feta_predict_pair example_feta)) ?X
           = Inr (map (\<lambda>q. map (\<lambda>i. mean (map (\<lambda>j. fst (feta_predict_pair example_feta (q ! i) (q ! j)))
                                            (competitors (length q) i)))
                              [0..<length q]) ?X)"
    by blast+
  have c: "cmpnet_predict_scores_fixed example_cmpnet ?X
     = Inr [[(sigmoid (- 1) + sigmoid (- 2)) / 2, (sigmoid 1 + sigmoid (- 1)) / 2,
             (sigmoid 2 + sigmoid 1) / 2]]"
    unfolding cmp
    by (simp only: list.map len upt3 competitors_3)
       (simp add: mean_def cmpnet_construct_model_def example_cmpnet_def
          apply_layers_def affine_def dot_def)
  have f: "for_instances (pairwise_row_means (feta_predict_pair example_feta)) ?X
     = Inr [[- 3 / 2, 0, 3 / 2]]"
    unfolding fet
    by (simp only: list.map len upt3 competitors_3)
       (simp add: mean_def feta_predict_pair_def example_feta_def
          apply_layers_def affine_def dot_def)
  show ?thesis using c f perm by simp
qed

text \<open>
  Claim C10.  Every score that \<open>_predict_scores_fixed\<close> returns lies in \<open>[0, 1]\<close>:
  RankNet scores are outputs of the sigmoid unit, CmpNet scores are means of non-empty
  rows of sigmoid outputs, and the FETA pair path ends in a sigmoid or in the
  sigmoid-activated \<open>weighted_sum\<close> unit.  On query sets of at least two objects the
  CmpNet and FETA paths do return scores.
\<close>

theorem predicted_scores_in_unit_interval:
  "(\<forall>row \<in> set (ranknet_predict_scores_fixed nw X). \<forall>s \<in> set row. 0 \<le> s \<and> s \<le> 1)
   \<and> (\<forall>S. cmpnet_predict_scores_fixed nw X = Inr S
          \<longrightarrow> (\<forall>row \<in> set S. \<forall>s \<in> set row. 0 \<le> s \<and> s \<le> 1))
   \<and> (\<forall>S. predict_scores_using_pairs fw X = Inr S
          \<longrightarrow> (\<forall>row \<in> set S. \<forall>s \<in> set row. 0 \<le> s \<and> s \<le> 1))
   \<and> ((\<forall>q \<in> set X. 2 \<le> length q)
          \<longrightarrow> (\<exists>S. cmpnet_predict_scores_fixed nw X = Inr S)
            \<and> (\<exists>S. predict_scores_using_pairs fw X = Inr S))"
proof (intro conjI allI impI ballI)
  fix row s
  assume "row \<in> set (ranknet_predict_scores_fixed nw X)" and "s \<in> set row"
  then obtain x where "s = scoring_model nw x"
    by (auto simp: ranknet_predict_scores_fixed_def)
  then show "0 \<le> s" and "s \<le> 1"
    using sigmoid_bounds [of "affine (output_node nw) (apply_layers (hidden_layers nw) x)"]
    by (simp_all add: scoring_model_def)
next
  fix S row s
  assume S: "cmpnet_predict_scores_fixed nw X = Inr S" and row: "row \<in> set S" and s: "s \<in> set row"
  let ?P = "cmpnet_construct_model nw"
  from for_instances_Inr_D [OF S [unfolded cmpnet_predict_scores_fixed_def] row]
  obtain q where q: "pairwise_row_means ?P q = Inr row" by blast
  have n: "2 \<le> length q"
    using q pairwise_row_means_fails [of q ?P] by (cases "2 \<le> length q") simp_all
  from q pairwise_row_means_eq [OF n, of ?P] s
  obtain i where i: "i < length q"
    and s_def: "s = mean (map (\<lambda>j. fst (?P (q ! i) (q ! j))) (competitors (length q) i))"
    by auto
  have "0 \<le> s \<and> s \<le> 1"
    unfolding s_def
  proof (rule mean_in_unit_interval)
    show "map (\<lambda>j. fst (?P (q ! i) (q ! j))) (competitors (length q) i) \<noteq> []"
      using competitors_nonempty [OF n i] by simp
  next
    fix x assume "x \<in> set (map (\<lambda>j. fst (?P (q ! i) (q ! j))) (competitors (length q) i))"
    then obtain z where "x = sigmoid z"
      by (auto simp: cmpnet_construct_model_def Let_def)
    then show "0 \<le> x \<and> x \<le> 1" using sigmoid_bounds [of z] by simp
  qed
  then show "0 \<le> s" and "s \<le> 1" by simp_all
next
  fix S row s
  assume S: "predict_scores_using_pairs fw X = Inr S" and row: "row \<in> set S" and s: "s \<in> set row"
  from for_instances_Inr_D [OF S [unfolded predict_scores_using_pairs_def] row]
  obtain q where q: "feta_instance_scores_using_pairs fw q = Inr row" by blast
  obtain scores where sc: "pairwise_row_means (feta_predict_pair fw) q = Inr scores"
    using q by (cases "pairwise_row_means (feta_predict_pair fw) q")
      (simp_all add: feta_instance_scores_using_pairs_def)
  have "\<exists>z. s = sigmoid z"
  proof (cases "add_zeroth_order_model fw")
    case True
    then have "row = create_weighted_model fw (length q) scores (map (zero_order_model fw) q)"
      using q sc by (simp add: feta_instance_scores_using_pairs_def)
    then show ?thesis using s by (auto simp: create_weighted_model_def)
  next
    case False
    then have "row = map sigmoid scores"
      using q sc by (simp add: feta_instance_scores_using_pairs_def)
    then show ?thesis using s by auto
  qed
  then obtain z where "s = sigmoid z" ..
  then show "0 \<le> s" and "s \<le> 1" using sigmoid_bounds [of z] by simp_all
next
  assume a: "\<forall>q \<in> set X. 2 \<le> length q"
  have "for_instances (pairwise_row_means (cmpnet_construct_model nw)) X
          = Inr (map (\<lambda>q. map (\<lambda>i. mean (map (\<lambda>j. fst (cmpnet_construct_model nw (q ! i) (q ! j)))
                                            (competitors (length q) i)))
                              [0..<length q]) X)"
    by (rule for_instances_all_Inr) (use a in \<open>simp add: pairwise_row_means_eq\<close>)
  then show "\<exists>S. cmpnet_predict_scores_fixed nw X = Inr S"
    unfolding cmpnet_predict_scores_fixed_def by (rule exI)
  let ?first = "\<lambda>q. map (\<lambda>i. mean (map (\<lambda>j. fst (feta_predict_pair fw (q ! i) (q ! j)))
                                            (competitors (length q) i))) [0..<length q]"
  let ?g = "\<lambda>q. if add_zeroth_order_model fw
                 then create_weighted_model fw (length q) (?first q) (map (zero_order_model fw) q)
                 else map sigmoid (?first q)"
  have "for_instances (feta_instance_scores_using_pairs fw) X = Inr (map ?g X)"
    by (rule for_instances_all_Inr)
       (use a in \<open>simp add: feta_instance_scores_using_pairs_def pairwise_row_means_eq\<close>)
  then show "\<exists>S. predict_scores_using_pairs fw X = Inr S"
    unfolding predict_scores_using_pairs_def by (rule exI)
qed

theorem predicted_scores_in_unit_interval_witness:
  "(\<exists>S. cmpnet_predict_scores_fixed example_cmpnet [[[1], [2], [3]]] = Inr S
        \<and> (\<forall>row \<in> set S. \<forall>s \<in> set row. 0 \<le> s \<and> s \<le> 1))
   \<and> (\<exists>S. predict_scores_using_pairs example_feta [[[1], [2], [3]]] = Inr S
        \<and> (\<forall>row \<in> set S. \<forall>s \<in> set row. 0 \<le> s \<and> s \<le> 1))
   \<and> 0 \<le> scoring_model example_ranknet [3] \<and> scoring_model example_ranknet [3] \<le> 1"
proof -
  let ?X = "[[[1], [2], [3 :: real]]]"
  have h: "\<forall>q \<in> set ?X. 2 \<le> length q" by simp
  have r: "[scoring_model example_ranknet [3]] \<in> set (ranknet_predict_scores_fixed example_ranknet [[[3]]])"
    by (simp add: ranknet_predict_scores_fixed_def)
  have "0 \<le> scoring_model example_ranknet [3] \<and> scoring_model example_ranknet [3] \<le> 1"
    using predicted_scores_in_unit_interval [of example_ranknet "[[[3]]]" example_feta] r
    by (metis list.set_intros(1))
  moreover have "\<exists>S. cmpnet_predict_scores_fixed example_cmpnet ?X = Inr S
        \<and> (\<forall>row \<in> set S. \<forall>s \<in> set row. 0 \<le> s \<and> s \<le> 1)"
    using predicted_scores_in_unit_interval [of example_cmpnet ?X example_feta] h by blast
  moreover have "\<exists>S. predict_scores_using_pairs example_feta ?X = Inr S
        \<and> (\<forall>row \<in> set S. \<forall>s \<in> set row. 0 \<le> s \<and> s \<le> 1)"
    using predicted_scores_in_unit_interval [of example_cmpnet ?X example_feta] h by blast
  ultimately show ?thesis by blast
qed

section \<open>RankNet: pairwise output against per-object utilities\<close>

lemma dot_add_neg:
  "length u = length v \<Longrightarrow> dot w (map2 (+) u (map uminus v)) = dot w u - dot w v"
proof (induction w arbitrary: u v)
  case Nil
  then show ?case by (simp add: dot_def)
next
  case (Cons x w)
  show ?case
  proof (cases u)
    case Nil
    with Cons.prems show ?thesis by (simp add: dot_def)
  next
    case (Cons y u')
    with Cons.prems obtain z v' where v: "v = z # v'" and "length u' = length v'"
      by (cases v) simp_all
    with Cons.IH [of u' v'] Cons show ?thesis
      by (simp add: dot_def algebra_simps)
  qed
qed

text \<open>
  Two weight settings with strictly ordered utilities whose pairwise output for the best
  against the worst object is below \<open>0.5\<close>: a single hidden layer with output bias
  \<open>- 10\<close> on the objects \<open>[3], [2], [1]\<close>, and two ReLU layers without any bias
  and output kernel \<open>- 1\<close> on the objects \<open>[1], [2], [3]\<close>.
\<close>

theorem ranknet_transitivity_counterexample:
  "scoring_model example_ranknet [2] < scoring_model example_ranknet [3]
   \<and> scoring_model example_ranknet [1] < scoring_model example_ranknet [2]
   \<and> ranknet_construct_model example_ranknet [3] [1] = Inr (sigmoid (- 8))
   \<and> sigmoid (- 8) < 1 / 2
   \<and> scoring_model example_ranknet_deep [2] < scoring_model example_ranknet_deep [1]
   \<and> scoring_model example_ranknet_deep [3] < scoring_model example_ranknet_deep [2]
   \<and> ranknet_construct_model example_ranknet_deep [1] [3] = Inr (sigmoid (- 1))
   \<and> sigmoid (- 1) < 1 / 2"
proof -
  have s: "scoring_model example_ranknet [x] = sigmoid (relu x - 10)" for x
    by (simp add: scoring_model_def example_ranknet_def apply_layers_def Dense_def affine_def dot_def)
  have d: "scoring_model example_ranknet_deep [x] = sigmoid (- relu (relu x))" for x
    by (simp add: scoring_model_def example_ranknet_deep_def apply_layers_def Dense_def affine_def dot_def)
  have p1: "ranknet_construct_model example_ranknet [3] [1] = Inr (sigmoid (- 8))"
    by (simp add: ranknet_construct_model_def example_ranknet_def apply_layers_def Dense_def
          affine_def dot_def relu_def)
  have p2: "ranknet_construct_model example_ranknet_deep [1] [3] = Inr (sigmoid (- 1))"
    by (simp add: ranknet_construct_model_def example_ranknet_deep_def apply_layers_def Dense_def
          affine_def dot_def relu_def)
  have half: "sigmoid x < 1 / 2" if "x < 0" for x
    using that sigmoid_less_iff [of x 0] by (simp add: sigmoid_def)
  show ?thesis
    unfolding s d p1 p2 using half [of "- 8"] half [of "- 1"]
    by (simp add: sigmoid_less_iff relu_def)
qed

text \<open>
  Claim C3, as the code has it.  With a single hidden layer \<open>h\<close> the pairwise output
  for \<open>(a, c)\<close> is the sigmoid of \<open>w \<cdot> h a - w \<cdot> h c + b\<close>, where \<open>w\<close> and
  \<open>b\<close> are kernel and bias of the output unit.  If moreover \<open>b \<ge> 0\<close>, then
  utilities with \<open>U a > U b\<close> and \<open>U b > U c\<close> give a pairwise output above
  \<open>0.5\<close> for \<open>(a, c)\<close>.  The counterexample before it shows that neither
  restriction can be dropped: a negative output bias, or a second ReLU layer applied to
  the negated encoding, makes the pairwise output for \<open>(a, c)\<close> fall below \<open>0.5\<close>
  although the utilities are strictly ordered.
\<close>

theorem ranknet_single_hidden_layer_transitive:
  assumes "hidden_layers nw = [h]"
    and "length (h a) = length (h c)"
    and "0 \<le> bias (output_node nw)"
    and "scoring_model nw b < scoring_model nw a"
    and "scoring_model nw c < scoring_model nw b"
  shows "ranknet_construct_model nw a c
           = Inr (sigmoid (dot (kernel (output_node nw)) (h a) - dot (kernel (output_node nw)) (h c)
                           + bias (output_node nw)))
         \<and> (\<exists>p. ranknet_construct_model nw a c = Inr p \<and> 1 / 2 < p)"
proof -
  let ?w = "kernel (output_node nw)"
  let ?b = "bias (output_node nw)"
  have U: "scoring_model nw x = sigmoid (dot ?w (h x) + ?b)" for x
    using assms(1) by (simp add: scoring_model_def apply_layers_def affine_def)
  have "dot ?w (h c) < dot ?w (h a)"
    using assms(4,5) unfolding U sigmoid_less_iff by simp
  then have pos: "0 < dot ?w (h a) - dot ?w (h c) + ?b"
    using assms(3) by simp
  have eq: "ranknet_construct_model nw a c = Inr (sigmoid (dot ?w (h a) - dot ?w (h c) + ?b))"
    using assms(1) dot_add_neg [OF assms(2), of ?w]
    by (simp add: ranknet_construct_model_def apply_layers_def affine_def)
  have "1 / 2 < sigmoid (dot ?w (h a) - dot ?w (h c) + ?b)"
    using pos by (simp only: sigmoid_gt_half_iff)
  with eq show ?thesis by blast
qed

theorem ranknet_single_hidden_layer_transitive_witness:
  "ranknet_construct_model example_ranknet_unbiased [3] [1] = Inr (sigmoid 2)
   \<and> (\<exists>p. ranknet_construct_model example_ranknet_unbiased [3] [1] = Inr p \<and> 1 / 2 < p)"
proof -
  let ?h = "Dense relu [\<lparr>kernel = [1], bias = 0\<rparr>]"
  have s: "scoring_model example_ranknet_unbiased [x] = sigmoid (relu x)" for x
    by (simp add: scoring_model_def example_ranknet_unbiased_def apply_layers_def Dense_def affine_def dot_def)
  have h1: "hidden_layers example_ranknet_unbiased = [?h]"
    by (simp add: example_ranknet_unbiased_def)
  have h2: "length (?h [3]) = length (?h [1])" by (simp add: Dense_def)
  have h3: "0 \<le> bias (output_node example_ranknet_unbiased)"
    by (simp add: example_ranknet_unbiased_def)
  have h4: "scoring_model example_ranknet_unbiased [2] < scoring_model example_ranknet_unbiased [3]"
    unfolding s by (simp add: sigmoid_less_iff relu_def)
  have h5: "scoring_model example_ranknet_unbiased [1] < scoring_model example_ranknet_unbiased [2]"
    unfolding s by (simp add: sigmoid_less_iff relu_def)
  have e: "ranknet_construct_model example_ranknet_unbiased [3] [1] = Inr (sigmoid 2)"
    by (simp add: ranknet_construct_model_def example_ranknet_unbiased_def apply_layers_def
          Dense_def affine_def dot_def relu_def)
  from ranknet_single_hidden_layer_transitive [OF h1 h2 h3 h4 h5]
  have "\<exists>p. ranknet_construct_model example_ranknet_unbiased [3] [1] = Inr p \<and> 1 / 2 < p"
    by (rule conjunct2)
  with e show ?thesis by blast
qed

section \<open>Properties of fit\<close>

text \<open>
  Training fails with \<open>Raised ''training failed''\<close> in both runs.  In the first the
  stride is \<open>0\<close> and the slice in the tuner raises \<open>ValueError\<close>; in the second the
  learner has no trained state and \<open>predict_scores\<close> raises \<open>AttributeError\<close>.
  The exception that leaves \<open>fit\<close> is the tuner's, not the one of the training.
\<close>

theorem fit_exception_replaced_counterexample:
  "snd (example_fit_fails True [[3/5, 2/5]] [[True, False]]) = Some (Raised ''training failed'')
   \<and> snd (example_fit_fails False [[3/5, 2/5]] [[True, False]]) = Some (Raised ''training failed'')
   \<and> FETAChoiceFunction_fit example_f1_score example_split example_fit_fails example_predict_scores
       (example_learner True) [[1/5, 4/5], [3/5, 2/5]] [[False, True], [True, False]] (1 / 10) 0
     = (\<lparr>fitted = True, threshold = Some (1 / 2), calls = [TrainTestSplit, SuperFit, TuneThreshold]\<rparr>,
        Some ValueError)
   \<and> FETAChoiceFunction_fit example_f1_score example_split example_fit_fails example_predict_scores
       (example_learner False) [[1/5, 4/5], [3/5, 2/5]] [[False, True], [True, False]] (1 / 10) 1
     = (\<lparr>fitted = False, threshold = Some (1 / 2), calls = [TrainTestSplit, SuperFit, TuneThreshold]\<rparr>,
        Some AttributeError)"
  by (simp add: FETAChoiceFunction_fit_def example_split_def example_fit_fails_def
        example_predict_scores_def example_learner_def tune_threshold_def slice_step_def)

text \<open>
  Claim C5, as the code has it.  With \<open>tune_size > 0\<close> and a split that succeeded, an
  exception \<open>e\<close> of the inner training does not stop the tuner: the trace ends with
  \<open>TuneThreshold\<close>.  If the tuner returns \<open>t\<close>, the threshold becomes \<open>t\<close> and
  \<open>e\<close> leaves \<open>fit\<close>; if the tuner raises \<open>e'\<close>, the threshold keeps its old
  value and \<open>e'\<close> leaves \<open>fit\<close> in place of \<open>e\<close>.
\<close>

theorem fit_tunes_in_finally:
  assumes "0 < tune_size"
    and "train_test_split X Y tune_size = Inr (X_train, X_val, Y_train, Y_val)"
    and "super_fit (fitted s) X_train Y_train = (m, Some e)"
  shows "FETAChoiceFunction_fit f1_score train_test_split super_fit predict_scores s X Y tune_size
             thin_thresholds
           = (case tune_threshold f1_score (predict_scores m) X_val Y_val thin_thresholds of
                Inr t \<Rightarrow> (s\<lparr>fitted := m, threshold := Some t,
                             calls := calls s @ [TrainTestSplit, SuperFit, TuneThreshold]\<rparr>, Some e)
              | Inl e' \<Rightarrow> (s\<lparr>fitted := m,
                             calls := calls s @ [TrainTestSplit, SuperFit, TuneThreshold]\<rparr>, Some e'))
       \<and> RankNetChoiceFunction_fit train_test_split super_fit tune s X Y tune_size thin_thresholds
           = (case tune m X_val Y_val thin_thresholds of
                Inr t \<Rightarrow> (s\<lparr>fitted := m, threshold := Some t,
                             calls := calls s @ [TrainTestSplit, SuperFit, TuneThreshold]\<rparr>, Some e)
              | Inl e' \<Rightarrow> (s\<lparr>fitted := m,
                             calls := calls s @ [TrainTestSplit, SuperFit, TuneThreshold]\<rparr>, Some e'))"
  using assms
  by (simp add: FETAChoiceFunction_fit_def RankNetChoiceFunction_fit_def split: sum.splits)

theorem fit_tunes_in_finally_witness:
  "FETAChoiceFunction_fit example_f1_score example_split example_fit_fails example_predict_scores
       (example_learner True) [[1/5, 4/5], [3/5, 2/5]] [[False, True], [True, False]] (1 / 10) 1
     = (\<lparr>fitted = True, threshold = Some (1 / 5), calls = [TrainTestSplit, SuperFit, TuneThreshold]\<rparr>,
        Some (Raised ''training failed''))"
proof -
  let ?X = "[[1/5, 4/5], [3/5, 2/5 :: real]]"
  let ?Y = "[[False, True], [True, False]]"
  have h1: "(0 :: real) < 1 / 10" by simp
  have h2: "example_split ?X ?Y (1 / 10) = Inr ([[3/5, 2/5]], [[1/5, 4/5]], [[True, False]], [[False, True]])"
    by (simp add: example_split_def)
  have h3: "example_fit_fails (fitted (example_learner True)) [[3/5, 2/5]] [[True, False]]
              = (True, Some (Raised ''training failed''))"
    by (simp add: example_fit_fails_def example_learner_def)
  have f: "example_f1_score [[False, True]] (greater_than [[1/5, 4/5]] 0) = Inr (2/3)"
    "example_f1_score [[False, True]] (greater_than [[1/5, 4/5]] (1/5)) = Inr 1"
    "example_f1_score [[False, True]] (greater_than [[1/5, 4/5]] (4/5)) = Inr 0"
    by (simp_all add: example_f1_score_def f1_row_def greater_than_def)
  have t: "tune_threshold example_f1_score (example_predict_scores True) [[1/5, 4/5]]
             [[False, True]] 1 = Inr (1 / 5)"
    by (simp add: tune_threshold_def example_predict_scores_def slice_step_def np_unique_def f)
  from fit_tunes_in_finally
    [where train_test_split = example_split and super_fit = example_fit_fails
       and s = "example_learner True" and X = ?X and Y = ?Y and tune_size = "1 / 10"
       and X_train = "[[3/5, 2/5]]" and X_val = "[[1/5, 4/5]]"
       and Y_train = "[[True, False]]" and Y_val = "[[False, True]]"
       and m = True and e = "Raised ''training failed''"
       and predict_scores = example_predict_scores and thin_thresholds = 1
       and f1_score = example_f1_score and tune = "\<lambda>m X Y k. Inr 0", OF h1 h2 h3]
  show ?thesis by (simp add: t example_learner_def)
qed

text \<open>
  Claim C6.  With \<open>tune_size = 0\<close> the only collaborator call is the inherited
  \<open>fit\<close> on the whole batch: neither \<open>train_test_split\<close> nor the tuner runs.  When
  that call returns, the threshold is exactly \<open>0.5\<close>; when it raises, its exception
  leaves \<open>fit\<close> before the assignment and the threshold keeps its old value.
\<close>

theorem fit_without_tuning:
  "FETAChoiceFunction_fit f1_score train_test_split super_fit predict_scores s X Y 0 thin_thresholds
     = (s\<lparr>fitted := fst (super_fit (fitted s) X Y),
           threshold := (if snd (super_fit (fitted s) X Y) = None then Some (1 / 2) else threshold s),
           calls := calls s @ [SuperFit]\<rparr>,
        snd (super_fit (fitted s) X Y))
   \<and> RankNetChoiceFunction_fit train_test_split super_fit tune s X Y 0 thin_thresholds
     = (s\<lparr>fitted := fst (super_fit (fitted s) X Y),
           threshold := (if snd (super_fit (fitted s) X Y) = None then Some (1 / 2) else threshold s),
           calls := calls s @ [SuperFit]\<rparr>,
        snd (super_fit (fitted s) X Y))"
  by (cases "super_fit (fitted s) X Y")
     (auto simp: FETAChoiceFunction_fit_def RankNetChoiceFunction_fit_def split: option.splits)

section \<open>Properties of prediction\<close>

lemma predict_scores_items_log:
  "snd (predict_scores_items f items runs) = runs @ map snd items"
  if "\<forall>x \<in> snd ` set items. \<exists>sc. f x = Inr sc"
  using that
proof (induction items arbitrary: runs)
  case Nil
  then show ?case by simp
next
  case (Cons it items)
  obtain n x where it: "it = (n, x)" by (cases it)
  from Cons.prems it obtain sc where sc: "f x = Inr sc" by auto
  have "\<forall>x \<in> snd ` set items. \<exists>sc. f x = Inr sc" using Cons.prems by simp
  from Cons.IH [OF this, of "runs @ [x]"] show ?case
    by (auto simp: it sc split: prod.splits sum.splits)
qed

lemma Learner_predict_is_composition:
  "Learner_predict f pfs X runs =
     (case fst (Learner_predict_scores f X runs) of
        Inl e \<Rightarrow> (Inl e, snd (Learner_predict_scores f X runs))
      | Inr scores \<Rightarrow> (pfs scores, snd (Learner_predict_scores f X runs)))"
  by (simp add: Learner_predict_def split: prod.splits sum.splits)

lemma Learner_predict_scores_Array_log:
  "snd (Learner_predict_scores f (Array x) runs) = runs @ [x]"
  by (simp add: Learner_predict_scores_def split: sum.splits)

lemma FETAChoiceFunction_predict_Array:
  "FETAChoiceFunction_predict f t (Array x) runs = Learner_predict f (choice_predict_for_scores t) (Array x) runs"
  by (simp add: FETAChoiceFunction_predict_def Learner_predict_def Learner_predict_scores_def
        choice_predict_for_scores_def split: sum.splits)

lemma FETAChoiceFunction_predict_Dict:
  "Learner_predict_scores f (Dict items) runs = (Inr scores, runs')
     \<Longrightarrow> FETAChoiceFunction_predict f t (Dict items) runs = (Inl TypeError, runs')"
  by (auto simp: FETAChoiceFunction_predict_def Learner_predict_scores_def split: sum.splits prod.splits)

text \<open>
  Claim C1 at a size-keyed mapping.  \<open>_predict_scores_fixed\<close> is a parameter of the
  model (lemma \<open>FETAChoiceFunction_predict_Dict\<close> holds for every choice of it); here
  it is the RankNet scoring model with the example weights, and the mapping holds one
  batch of one query set of two objects.
  \<open>predict_scores\<close> returns the mapping of scores after one scoring pass and
  \<open>predict_for_scores\<close> thresholds it, but \<open>FETAChoiceFunction.predict\<close> raises
  \<open>TypeError\<close> on the same input.  On a single array the two agree.
\<close>

theorem FETAChoiceFunction_predict_mapping:
  "Learner_predict_scores (\<lambda>X. Inr (ranknet_predict_scores_fixed example_ranknet_unbiased X))
       (Dict [(2, [[[1], [- 1]]])]) []
     = (Inr (Dict [(2, [[sigmoid 1, sigmoid 0]])]), [[[[1], [- 1]]]])
   \<and> Learner_predict (\<lambda>X. Inr (ranknet_predict_scores_fixed example_ranknet_unbiased X))
       (choice_predict_for_scores (1 / 2)) (Dict [(2, [[[1], [- 1]]])]) []
     = (Inr (Dict [(2, [[True, False]])]), [[[[1], [- 1]]]])
   \<and> FETAChoiceFunction_predict (\<lambda>X. Inr (ranknet_predict_scores_fixed example_ranknet_unbiased X))
       (1 / 2) (Dict [(2, [[[1], [- 1]]])]) []
     = (Inl TypeError, [[[[1], [- 1]]]])
   \<and> FETAChoiceFunction_predict (\<lambda>X. Inr (ranknet_predict_scores_fixed example_ranknet_unbiased X))
       (1 / 2) (Array [[[1], [- 1]]]) []
     = (Inr (Array [[True, False]]), [[[[1], [- 1]]]])"
proof -
  have s: "scoring_model example_ranknet_unbiased [x] = sigmoid (relu x)" for x
    by (simp add: scoring_model_def example_ranknet_unbiased_def apply_layers_def Dense_def
          affine_def dot_def)
  have g: "1 < sigmoid 1 * 2" "sigmoid 0 = 1 / 2"
    using sigmoid_gt_half_iff [of 1] by (simp_all add: sigmoid_def)
  show ?thesis
    by (simp add: Learner_predict_scores_def Learner_predict_def FETAChoiceFunction_predict_def
          choice_predict_for_scores_def ranknet_predict_scores_fixed_def greater_than_def s relu_def
          g del: One_nat_def)
qed

section \<open>Properties of keyword handling\<close>

lemma check_keys_None_iff:
  "check_keys allowed keys = None \<longleftrightarrow> (\<forall>k \<in> set keys. starts_with_legal_prefix allowed k)"
  by (induction keys) auto

lemma check_keys_Some:
  "check_keys allowed keys = Some e \<Longrightarrow>
     \<exists>pre key post. keys = pre @ key # post \<and> e = UnexpectedKeyword key allowed
        \<and> \<not> starts_with_legal_prefix allowed key
        \<and> (\<forall>k \<in> set pre. starts_with_legal_prefix allowed k)"
proof (induction keys)
  case Nil
  then show ?case by simp
next
  case (Cons k keys)
  show ?case
  proof (cases "starts_with_legal_prefix allowed k")
    case True
    with Cons obtain pre key post where
      "keys = pre @ key # post" "e = UnexpectedKeyword key allowed"
      "\<not> starts_with_legal_prefix allowed key" "\<forall>k \<in> set pre. starts_with_legal_prefix allowed k"
      by auto
    with True have "k # keys = (k # pre) @ key # post \<and> e = UnexpectedKeyword key allowed
        \<and> \<not> starts_with_legal_prefix allowed key
        \<and> (\<forall>k \<in> set (k # pre). starts_with_legal_prefix allowed k)"
      by simp
    then show ?thesis by blast
  next
    case False
    with Cons.prems have "k # keys = [] @ k # keys \<and> e = UnexpectedKeyword k allowed
        \<and> \<not> starts_with_legal_prefix allowed k
        \<and> (\<forall>k \<in> set []. starts_with_legal_prefix allowed k)"
      by simp
    then show ?thesis by blast
  qed
qed

lemma starts_with_legal_prefix_iff:
  "starts_with_legal_prefix allowed key \<longleftrightarrow> (\<exists>p \<in> set allowed. startswith key p)"
  by (induction allowed) auto

lemma delete_unknown_keys_filter:
  "delete_unknown_keys allowed keys kwargs
     = filter (\<lambda>(k, v). k \<in> set keys \<longrightarrow> k \<in> set allowed) kwargs"
proof (induction keys arbitrary: kwargs)
  case Nil
  then show ?case by simp
next
  case (Cons key keys)
  show ?case
    by (auto simp: Cons del_key_def case_prod_unfold intro: filter_cong)
qed

lemma init_kwargs_filter:
  "delete_unknown_keys allowed (map fst kwargs) kwargs = filter (\<lambda>(k, v). k \<in> set allowed) kwargs"
  unfolding delete_unknown_keys_filter by (rule filter_cong) force+

text \<open>
  What the two ways of treating keyword arguments do in general.  \<open>_store_kwargs\<close>
  raises the error that names the first key without a whitelisted prefix and the allowed
  prefixes, and writes no keyword argument then; it writes all of them when every key has
  a whitelisted prefix.  The loop in the constructors of \<open>RankNetCore\<close> and
  \<open>CmpNetCore\<close> never raises and keeps the arguments whose key is in
  \<open>allowed_dense_kwargs\<close>.
\<close>

lemma store_kwargs_accepts:
  assumes "\<forall>k \<in> set (map fst kwargs). starts_with_legal_prefix allowed k"
  shows "store_kwargs self kwargs allowed
           = (self\<lparr>allowed_prefixes_ := allowed, vars := vars self ++ map_of kwargs\<rparr>, None)"
proof -
  have "check_keys allowed (map fst kwargs) = None"
    using assms by (simp only: check_keys_None_iff)
  then show ?thesis by (simp add: store_kwargs_def)
qed

lemma store_kwargs_rejects:
  assumes "\<exists>k \<in> set (map fst kwargs). \<not> starts_with_legal_prefix allowed k"
  shows "\<exists>pre key post. map fst kwargs = pre @ key # post
           \<and> \<not> starts_with_legal_prefix allowed key
           \<and> (\<forall>k \<in> set pre. starts_with_legal_prefix allowed k)
           \<and> store_kwargs self kwargs allowed
               = (self\<lparr>allowed_prefixes_ := allowed\<rparr>, Some (UnexpectedKeyword key allowed))"
proof -
  have "check_keys allowed (map fst kwargs) \<noteq> None"
    using assms by (simp only: check_keys_None_iff) blast
  then obtain e where e: "check_keys allowed (map fst kwargs) = Some e" by blast
  from check_keys_Some [OF e] obtain pre key post where
    "map fst kwargs = pre @ key # post" "e = UnexpectedKeyword key allowed"
    "\<not> starts_with_legal_prefix allowed key" "\<forall>k \<in> set pre. starts_with_legal_prefix allowed k"
    by blast
  moreover have "store_kwargs self kwargs allowed = (self\<lparr>allowed_prefixes_ := allowed\<rparr>, Some e)"
    using e by (simp add: store_kwargs_def)
  ultimately show ?thesis by blast
qed

lemma init_kwargs_keep_allowed:
  "RankNetCore_init_kwargs dense kwargs = filter (\<lambda>(k, v). k \<in> set dense) kwargs"
  "CmpNetCore_init_kwargs dense kwargs = filter (\<lambda>(k, v). k \<in> set dense) kwargs"
  unfolding RankNetCore_init_kwargs_def CmpNetCore_init_kwargs_def
  by (rule init_kwargs_filter)+

text \<open>
  Claim C7 at concrete keyword arguments.  The keyword \<open>foo\<close> is neither in
  \<open>allowed_dense_kwargs\<close> (here the single option \<open>use_bias\<close>) nor does it start
  with a whitelisted prefix, and \<open>optimizer__lr\<close> is the keyword that the docstrings of
  the RankNet learners promise to hand to the optimizer.  The constructors of
  \<open>RankNetCore\<close> and \<open>CmpNetCore\<close> raise nothing: \<open>self.kwargs\<close> is what
  remains after both were deleted.  \<open>_store_kwargs\<close> with the prefixes of
  \<open>FETADiscreteChoiceFunction\<close> accepts \<open>optimizer__lr\<close> and raises the error
  naming \<open>foo\<close> and the allowed prefixes.
\<close>

theorem unknown_keyword_silently_dropped:
  "RankNetCore_init_kwargs [''use_bias'']
       [(''foo'', 1 :: int), (''optimizer__lr'', 2), (''use_bias'', 0)] = [(''use_bias'', 0)]
   \<and> CmpNetCore_init_kwargs [''use_bias''] [(''foo'', 1 :: int)] = []
   \<and> ''foo'' \<notin> set [''use_bias'']
   \<and> starts_with_legal_prefix feta_allowed_prefixes ''foo'' = False
   \<and> store_kwargs \<lparr>allowed_prefixes_ = [], vars = Map.empty\<rparr>
         [(''optimizer__lr'', 2 :: int), (''foo'', 1)] feta_allowed_prefixes
       = (\<lparr>allowed_prefixes_ = feta_allowed_prefixes, vars = Map.empty\<rparr>,
          Some (UnexpectedKeyword ''foo'' feta_allowed_prefixes))
   \<and> store_kwargs \<lparr>allowed_prefixes_ = [], vars = Map.empty\<rparr>
         [(''optimizer__lr'', 2 :: int)] feta_allowed_prefixes
       = (\<lparr>allowed_prefixes_ = feta_allowed_prefixes, vars = [''optimizer__lr'' \<mapsto> 2]\<rparr>, None)"
proof -
  have legal: "starts_with_legal_prefix feta_allowed_prefixes ''optimizer__lr''"
    and illegal: "\<not> starts_with_legal_prefix feta_allowed_prefixes ''foo''"
    by (simp_all add: feta_allowed_prefixes_def startswith_def)
  have drop: "RankNetCore_init_kwargs [''use_bias'']
       [(''foo'', 1 :: int), (''optimizer__lr'', 2), (''use_bias'', 0)] = [(''use_bias'', 0)]"
    "CmpNetCore_init_kwargs [''use_bias''] [(''foo'', 1 :: int)] = []"
    by (simp_all add: init_kwargs_keep_allowed)
  show ?thesis using legal illegal drop
    by (simp add: store_kwargs_def)
qed

section \<open>RankNetCore: predictions after a second fit\<close>

lemma RankNetCore_fit_fresh:
  "RankNetCore_fit fresh train s data
     = s\<lparr>heap := heap s @ [train fresh data], layers := Some (length (heap s))\<rparr>"
  by (simp add: RankNetCore_fit_def Let_def)

text \<open>
  A learner is fitted on \<open>d1\<close>, predicts once, is fitted again on \<open>d2\<close> and predicts
  again: the second prediction still uses the layers trained on \<open>d1\<close>, whatever
  \<open>d2\<close> is, because the cached scoring model refers to them.  A new learner fitted on
  \<open>d2\<close> alone predicts with the layers trained on \<open>d2\<close>.
\<close>

lemma refit_keeps_stale_scoring_model:
  "fst (RankNetCore_predict_scores_fixed
          (RankNetCore_fit fresh train
             (snd (RankNetCore_predict_scores_fixed (RankNetCore_fit fresh train RankNetCore_init d1) X0))
             d2) X)
     = Inr (ranknet_predict_scores_fixed (train fresh d1) X)"
  by (simp add: RankNetCore_fit_fresh RankNetCore_predict_scores_fixed_def
        RankNetCore_scoring_model_def RankNetCore_init_def nth_append)

lemma fit_then_predict:
  "fst (RankNetCore_predict_scores_fixed (RankNetCore_fit fresh train RankNetCore_init d) X)
     = Inr (ranknet_predict_scores_fixed (train fresh d) X)"
  by (simp add: RankNetCore_fit_fresh RankNetCore_predict_scores_fixed_def
        RankNetCore_scoring_model_def RankNetCore_init_def)

text \<open>
  Claim C9 at a concrete run.  Training is the stand-in \<open>example_train\<close>; the first
  fit has data \<open>[1]\<close>, the second \<open>[- 1]\<close>, and the query set is the single object
  \<open>[1]\<close>.  After the second fit the learner still returns the score \<open>sigmoid 1\<close> of the
  first fit, while a learner that only saw the second fit returns \<open>sigmoid (- 1)\<close>.
\<close>

theorem refit_predicts_with_first_fit:
  "fst (RankNetCore_predict_scores_fixed
          (RankNetCore_fit example_ranknet_unbiased example_train
             (snd (RankNetCore_predict_scores_fixed
                     (RankNetCore_fit example_ranknet_unbiased example_train RankNetCore_init [1])
                     [[[1]]]))
             [- 1]) [[[1]]])
     = Inr [[sigmoid 1]]
   \<and> fst (RankNetCore_predict_scores_fixed
          (RankNetCore_fit example_ranknet_unbiased example_train RankNetCore_init [- 1]) [[[1]]])
     = Inr [[sigmoid (- 1)]]
   \<and> sigmoid (- 1) < sigmoid 1"
proof -
  have s: "ranknet_predict_scores_fixed (example_train example_ranknet_unbiased [w]) [[[1]]]
             = [[sigmoid w]]" for w
    by (simp add: ranknet_predict_scores_fixed_def scoring_model_def example_train_def
          example_ranknet_unbiased_def apply_layers_def Dense_def affine_def dot_def relu_def)
  show ?thesis
    unfolding refit_keeps_stale_scoring_model fit_then_predict s
    by (simp add: sigmoid_less_iff)
qed

section \<open>FETA: rows of the training graph in general\<close>

lemma feta_pair_outputs_mirror: "snd (feta_pair_outputs nw a b) = fst (feta_pair_outputs nw b a)"
  by (simp add: feta_pair_outputs_def Let_def)

lemma feta_predict_pair_eq: "feta_predict_pair nw = feta_pair_outputs nw"
  by (intro ext) (simp add: feta_predict_pair_def feta_pair_outputs_def Let_def)

lemma map_upt_update:
  "i < n \<Longrightarrow> (map f [0..<n])[i := v] = map (f(i := v)) [0..<n]"
  by (rule nth_equalityI) (auto simp: nth_list_update)

lemma competitors_split: "k < n \<Longrightarrow> competitors n k = [0..<k] @ [Suc k..<n]"
proof -
  assume k: "k < n"
  have "[0..<n] = [0..<k] @ k # [Suc k..<n]"
    using k by (metis upt_conv_Cons upt_add_eq_append le_add_diff_inverse less_imp_le_nat zero_le add_0)
  then have "competitors n k = filter (\<lambda>j. j \<noteq> k) [0..<k] @ filter (\<lambda>j. j \<noteq> k) [Suc k..<n]"
    by (simp add: competitors_def)
  also have "filter (\<lambda>j. j \<noteq> k) [0..<k] = [0..<k]" by (rule filter_True) simp
  also have "filter (\<lambda>j. j \<noteq> k) [Suc k..<n] = [Suc k..<n]" by (rule filter_True) simp
  finally show ?thesis .
qed

lemma append_outputs_step:
  assumes "m < j" "j < n" "length q = n"
  shows "append_outputs nw q (map (rows_during (\<lambda>i j. fst (feta_pair_outputs nw (q ! i) (q ! j))) n m j) [0..<n]) (m, j)
           = map (rows_during (\<lambda>i j. fst (feta_pair_outputs nw (q ! i) (q ! j))) n m (Suc j)) [0..<n]"
proof -
  let ?g = "\<lambda>i j. fst (feta_pair_outputs nw (q ! i) (q ! j))"
  let ?R = "rows_during ?g n m"
  have m: "m < n" using assms by simp
  obtain Ng Nl where P: "feta_pair_outputs nw (q ! m) (q ! j) = (Ng, Nl)" by (cases "feta_pair_outputs nw (q ! m) (q ! j)")
  have Ng: "Ng = ?g m j" using P by simp
  have Nl: "Nl = ?g j m" using P feta_pair_outputs_mirror [of nw "q ! m" "q ! j"] by simp
  have "append_outputs nw q (map (?R j) [0..<n]) (m, j)
      = map (((?R j)(m := ?R j m @ [Ng]))(j := ?R j j @ [Nl])) [0..<n]"
    using m assms(1,2) by (simp add: append_outputs_def P Let_def map_upt_update)
  also have "\<dots> = map (?R (Suc j)) [0..<n]"
  proof (rule map_cong [OF refl])
    fix k assume "k \<in> set [0..<n]"
    show "(((?R j)(m := ?R j m @ [Ng]))(j := ?R j j @ [Nl])) k = ?R (Suc j) k"
      using assms(1) by (auto simp: rows_during_def Ng Nl)
  qed
  finally show ?thesis .
qed

lemma group_fold:
  assumes "m < n" "length q = n" "Suc m \<le> j'" "j' \<le> n"
  shows "foldl (append_outputs nw q) (map (rows_during (\<lambda>i j. fst (feta_pair_outputs nw (q ! i) (q ! j))) n m (Suc m)) [0..<n])
           (map (\<lambda>j. (m, j)) [Suc m..<j'])
         = map (rows_during (\<lambda>i j. fst (feta_pair_outputs nw (q ! i) (q ! j))) n m j') [0..<n]"
  using assms(3,4)
proof (induction j' rule: dec_induct)
  case base
  then show ?case by simp
next
  case (step j)
  then have "j < n" "m < j" by simp_all
  with step append_outputs_step [OF \<open>m < j\<close> \<open>j < n\<close> assms(2), of nw] show ?case
    by simp
qed

lemma rows_during_next_group:
  "m < n \<Longrightarrow> k < n \<Longrightarrow> rows_during g n m n k = rows_during g n (Suc m) (Suc (Suc m)) k"
  by (cases "k < m"; cases "k = m") (auto simp: rows_during_def competitors_split)

lemma groups_fold:
  assumes "length q = n" "m \<le> n"
  shows "foldl (append_outputs nw q) (replicate n [])
           (concat (map (\<lambda>i. map (\<lambda>j. (i, j)) [Suc i..<n]) [0..<m]))
         = map (rows_during (\<lambda>i j. fst (feta_pair_outputs nw (q ! i) (q ! j))) n m (Suc m)) [0..<n]"
  using assms(2)
proof (induction m)
  case 0
  have "replicate n [] = map (rows_during (\<lambda>i j. fst (feta_pair_outputs nw (q ! i) (q ! j))) n 0 (Suc 0)) [0..<n]"
    by (rule nth_equalityI) (auto simp: rows_during_def)
  then show ?case by simp
next
  case (Suc m)
  let ?g = "\<lambda>i j. fst (feta_pair_outputs nw (q ! i) (q ! j))"
  have m: "m < n" "m \<le> n" "Suc m \<le> n" using Suc.prems by simp_all
  have "foldl (append_outputs nw q) (replicate n [])
           (concat (map (\<lambda>i. map (\<lambda>j. (i, j)) [Suc i..<n]) [0..<Suc m]))
      = foldl (append_outputs nw q) (map (rows_during ?g n m (Suc m)) [0..<n])
           (map (\<lambda>j. (m, j)) [Suc m..<n])"
    using Suc.IH [OF m(2)] by simp
  also have "\<dots> = map (rows_during ?g n m n) [0..<n]"
    using group_fold [OF m(1) assms(1) m(3) le_refl] .
  also have "\<dots> = map (rows_during ?g n (Suc m) (Suc (Suc m))) [0..<n]"
    by (rule map_cong [OF refl]) (use m(1) in \<open>simp add: rows_during_next_group\<close>)
  finally show ?case .
qed

lemma feta_training_rows:
  "foldl (append_outputs nw q) (replicate (length q) []) (combinations2 (length q))
     = map (\<lambda>i. map (\<lambda>j. fst (feta_pair_outputs nw (q ! i) (q ! j))) (competitors (length q) i))
         [0..<length q]"
proof -
  let ?n = "length q"
  let ?g = "\<lambda>i j. fst (feta_pair_outputs nw (q ! i) (q ! j))"
  have "foldl (append_outputs nw q) (replicate ?n []) (combinations2 ?n)
      = map (rows_during ?g ?n ?n (Suc ?n)) [0..<?n]"
    unfolding combinations2_def by (rule groups_fold) simp_all
  also have "\<dots> = map (\<lambda>i. map (?g i) (competitors ?n i)) [0..<?n]"
    by (rule map_cong [OF refl]) (simp add: rows_during_def)
  finally show ?thesis .
qed

lemma create_zeroth_order_model_sigmoid:
  "create_zeroth_order_model nw x = sigmoid (zero_order_model nw x)"
  by (simp add: create_zeroth_order_model_def zero_order_model_def)

lemma for_instances_cong:
  "(\<And>q. q \<in> set X \<Longrightarrow> f q = g q) \<Longrightarrow> for_instances f X = for_instances g X"
proof (induction X)
  case Nil
  then show ?case by simp
next
  case (Cons q X)
  then have "f q = g q" and "for_instances f X = for_instances g X" by simp_all
  then show ?case by (simp split: sum.split)
qed

text \<open>
  On a query set of at least three objects the training graph and the prediction path
  average the same rows \<open>m\<close> and use the same zeroth-order scores \<open>z\<close>.
\<close>

lemma feta_paths_compared:
  fixes nw :: feta and q :: query
  assumes "3 \<le> length q"
  defines "m \<equiv> \<lambda>i. mean (map (\<lambda>j. fst (feta_pair_outputs nw (q ! i) (q ! j))) (competitors (length q) i))"
    and "z \<equiv> \<lambda>i. zero_order_model nw (q ! i)"
  shows "feta_construct_model nw q
           = (if add_zeroth_order_model nw
              then Inr (map (\<lambda>i. sigmoid (affine (weighted_sum nw) [m i, z i])) [0..<length q])
              else Inr (map (\<lambda>i. sigmoid (m i)) [0..<length q]))"
    and "feta_instance_scores_using_pairs nw q
           = (if add_zeroth_order_model nw
              then Inr (map (\<lambda>i. sigmoid (affine (weighted_sum nw) [m i, z i])) [0..<length q])
              else Inr (map (\<lambda>i. sigmoid (m i)) [0..<length q]))"
proof -
  have n: "\<not> length q < 3" and two: "2 \<le> length q" using assms(1) by simp_all
  show "feta_construct_model nw q
           = (if add_zeroth_order_model nw
              then Inr (map (\<lambda>i. sigmoid (affine (weighted_sum nw) [m i, z i])) [0..<length q])
              else Inr (map (\<lambda>i. sigmoid (m i)) [0..<length q]))"
    unfolding feta_construct_model_def Let_def feta_training_rows
    using n by (simp add: m_def z_def comp_def zero_order_model_def)
  show "feta_instance_scores_using_pairs nw q
           = (if add_zeroth_order_model nw
              then Inr (map (\<lambda>i. sigmoid (affine (weighted_sum nw) [m i, z i])) [0..<length q])
              else Inr (map (\<lambda>i. sigmoid (m i)) [0..<length q]))"
    unfolding feta_instance_scores_using_pairs_def pairwise_row_means_eq [OF two]
      feta_predict_pair_eq
    by (simp add: m_def z_def comp_def create_weighted_model_def)
qed

lemma upt3: "[0..<3] = [0, 1, 2]"
  by code_simp

text \<open>
  Claim C8.  On query sets of the trained size, with at least three objects so that the
  training graph can be built, the pair-enumerating prediction path returns the scores of
  the training graph, instance by instance and for the batch: the sigmoid of the row
  mean \<open>m i\<close> without a zeroth-order model, and the output of the sigmoid unit
  \<open>weighted_sum\<close> on the row mean and the zeroth-order score with it.
\<close>

theorem feta_prediction_path_equals_training_graph:
  assumes "\<forall>q \<in> set X. 3 \<le> length q"
  shows "predict_scores_using_pairs nw X = for_instances (feta_construct_model nw) X
       \<and> (\<exists>S. predict_scores_using_pairs nw X = Inr S)
       \<and> (\<forall>q \<in> set X.
             feta_instance_scores_using_pairs nw q = feta_construct_model nw q
           \<and> feta_construct_model nw q
               = (if add_zeroth_order_model nw
                  then Inr (map (\<lambda>i. sigmoid (affine (weighted_sum nw)
                         [mean (map (\<lambda>j. fst (feta_pair_outputs nw (q ! i) (q ! j)))
                                  (competitors (length q) i)),
                          zero_order_model nw (q ! i)])) [0..<length q])
                  else Inr (map (\<lambda>i. sigmoid
                         (mean (map (\<lambda>j. fst (feta_pair_outputs nw (q ! i) (q ! j)))
                                  (competitors (length q) i)))) [0..<length q])))"
proof -
  have inst: "feta_instance_scores_using_pairs nw q = feta_construct_model nw q"
    if "q \<in> set X" for q
    using that assms by (simp add: feta_paths_compared)
  have batch: "predict_scores_using_pairs nw X = for_instances (feta_construct_model nw) X"
    unfolding predict_scores_using_pairs_def by (rule for_instances_cong) (rule inst)
  let ?g = "\<lambda>q. if add_zeroth_order_model nw
                 then map (\<lambda>i. sigmoid (affine (weighted_sum nw)
                         [mean (map (\<lambda>j. fst (feta_pair_outputs nw (q ! i) (q ! j)))
                                  (competitors (length q) i)),
                          zero_order_model nw (q ! i)])) [0..<length q]
                 else map (\<lambda>i. sigmoid
                         (mean (map (\<lambda>j. fst (feta_pair_outputs nw (q ! i) (q ! j)))
                                  (competitors (length q) i)))) [0..<length q]"
  have "for_instances (feta_instance_scores_using_pairs nw) X = Inr (map ?g X)"
    by (rule for_instances_all_Inr) (use assms in \<open>simp add: feta_paths_compared\<close>)
  then have ret: "\<exists>S. predict_scores_using_pairs nw X = Inr S"
    unfolding predict_scores_using_pairs_def by (rule exI)
  have expl: "feta_construct_model nw q
               = (if add_zeroth_order_model nw
                  then Inr (map (\<lambda>i. sigmoid (affine (weighted_sum nw)
                         [mean (map (\<lambda>j. fst (feta_pair_outputs nw (q ! i) (q ! j)))
                                  (competitors (length q) i)),
                          zero_order_model nw (q ! i)])) [0..<length q])
                  else Inr (map (\<lambda>i. sigmoid
                         (mean (map (\<lambda>j. fst (feta_pair_outputs nw (q ! i) (q ! j)))
                                  (competitors (length q) i)))) [0..<length q]))"
    if "q \<in> set X" for q
    using that assms feta_paths_compared(1) [of q nw] by simp
  show ?thesis using batch ret inst expl by blast
qed

theorem feta_prediction_path_equals_training_graph_witness:
  "predict_scores_using_pairs example_feta_trained [[[1], [2], [3]]]
     = Inr [[sigmoid (0 + 1), sigmoid (1 / 2 + 2), sigmoid (3 / 2 + 3)]]
   \<and> for_instances (feta_construct_model example_feta_trained) [[[1], [2], [3]]]
     = Inr [[sigmoid (0 + 1), sigmoid (1 / 2 + 2), sigmoid (3 / 2 + 3)]]"
proof -
  let ?q = "[[1], [2], [3 :: real]]"
  have h: "\<forall>q \<in> set [?q]. 3 \<le> length q" by simp
  have len: "length ?q = 3" by simp
  have three: "3 \<le> length ?q" by simp
  have pair: "feta_pair_outputs example_feta_trained [x] [y] = (relu (x - y), relu (y - x))" for x y
    by (simp add: feta_pair_outputs_def example_feta_trained_def apply_layers_def Dense_def
          affine_def dot_def)
  have z: "zero_order_model example_feta_trained [x] = relu x" for x
    by (simp add: zero_order_model_def example_feta_trained_def apply_layers_def Dense_def
          affine_def dot_def)
  have ws: "affine (weighted_sum example_feta_trained) [a, b] = a + b" for a b
    by (simp add: example_feta_trained_def affine_def dot_def)
  have flag: "add_zeroth_order_model example_feta_trained"
    by (simp add: example_feta_trained_def)
  have train: "feta_construct_model example_feta_trained ?q
     = Inr [sigmoid (0 + 1), sigmoid (1 / 2 + 2), sigmoid (3 / 2 + 3)]"
    unfolding feta_paths_compared(1) [OF three]
    by (simp only: len list.map upt3 competitors_3 flag if_True)
       (simp add: pair z ws mean_def relu_def)
  from feta_prediction_path_equals_training_graph [OF h, of example_feta_trained]
  have "predict_scores_using_pairs example_feta_trained [?q]
          = for_instances (feta_construct_model example_feta_trained) [?q]"
    by (rule conjunct1)
  then show ?thesis by (simp add: train)
qed

end
